theory Spec2Isabelle
  imports Main "HOL-Library.Word" "HOL-Library.AList"
begin

section \<open>Data model\<close>

text \<open>
  The buffer pool of \<^verbatim>\<open>src/buffer/buffer_pool_manager.cpp\<close>, the page guards of
  \<^verbatim>\<open>src/storage/page/page_guard.cpp\<close> and the disk scheduler of
  \<^verbatim>\<open>src/storage/disk/disk_scheduler.cpp\<close>, run by one thread: every member function is a
  function from the state before the call to its result and the state after it.

  Modelled from the spec: the types of \<^verbatim>\<open>common/config.h\<close>, which is not among the
  sources. \<^verbatim>\<open>page_id_t\<close> is a 32-bit integer ("PageId: a 32-bit non-negative integer");
  the code compares it with \<^verbatim>\<open>-1\<close>, so it is read as signed, with \<open>sint\<close>. The pin count
  is a \<^verbatim>\<open>std::atomic<size_t>\<close>, a 64-bit word. Frame ids are indices, natural numbers.

  A frame header is addressed by its frame id: the pool's constructor builds
  \<^verbatim>\<open>frames_[i]\<close> with \<^verbatim>\<open>frame_id_ = i\<close> and never assigns either again, so the shared
  pointer \<^verbatim>\<open>frames_[i]\<close> that the guards keep is the address \<open>i\<close> of the store
  \<open>frames\<close>.
\<close>

type_synonym page_id_t = "32 word"
type_synonym frame_id_t = nat
type_synonym byte = "8 word"

text \<open>
  Modelled from the spec: the constant \<^verbatim>\<open>BUSTUB_PAGE_SIZE\<close> of \<^verbatim>\<open>common/config.h\<close>, which is
  not among the sources ("fixed PAGE_SIZE, typically 4096"). No proof unfolds it.
\<close>

definition BUSTUB_PAGE_SIZE :: nat where
  "BUSTUB_PAGE_SIZE = 4096"

text \<open>
  Modelled from the spec: the frame's reader-writer latch ("multiple shared readers XOR one
  exclusive writer"); its declaration in \<^verbatim>\<open>buffer_pool_manager.h\<close> is not among the sources.
  The code calls \<^verbatim>\<open>lock()\<close>, \<^verbatim>\<open>try_lock()\<close> and \<^verbatim>\<open>unlock()\<close> on it, the exclusive
  operations of a \<^verbatim>\<open>std::shared_mutex\<close>.
\<close>

datatype rwlatch_t = Unlocked | SharedLocked nat | ExclusiveLocked

record FrameHeader =
  data :: "byte list"
  pin_count :: "64 word"
  is_dirty :: bool
  rwlatch :: rwlatch_t

text \<open>\<^verbatim>\<open>FrameHeader::Reset\<close>: \<^verbatim>\<open>std::fill\<close> over the whole vector, pin count 0, dirty flag off.\<close>

definition Reset :: "FrameHeader \<Rightarrow> FrameHeader" where
  "Reset fr = fr\<lparr>data := replicate (length (data fr)) 0, pin_count := 0, is_dirty := False\<rparr>"

text \<open>\<^verbatim>\<open>FrameHeader::FrameHeader\<close>: \<^verbatim>\<open>data_(BUSTUB_PAGE_SIZE, 0)\<close>, then \<^verbatim>\<open>Reset()\<close>.\<close>

definition FrameHeader_ctor :: "frame_id_t \<Rightarrow> FrameHeader" where
  "FrameHeader_ctor i =
     Reset \<lparr>data = replicate BUSTUB_PAGE_SIZE 0, pin_count = 0, is_dirty = False,
            rwlatch = Unlocked\<rparr>"

section \<open>The replacer\<close>

text \<open>
  Modelled from the spec: the class \<^verbatim>\<open>LRUKReplacer\<close> (\<^verbatim>\<open>buffer/lru_k_replacer.h\<close>) is not among
  the sources. The spec fixes its interface only: \<open>record_access\<close> notes an access,
  \<open>set_evictable\<close> toggles whether \<open>evict\<close> may return the frame, \<open>evict\<close> returns a
  victim among the evictable frames and marks it non-evictable, or none when no frame is
  evictable, and \<open>size\<close> counts the evictable frames. The replacement policy is opaque: it
  is the field \<open>policy\<close>, any function from the access history and the candidates to an
  index, taken modulo the number of candidates.
\<close>

record LRUKReplacer =
  history :: "frame_id_t list"
  evictable :: "frame_id_t list"
  policy :: "frame_id_t list \<Rightarrow> frame_id_t list \<Rightarrow> nat"

definition LRUKReplacer_ctor :: "(frame_id_t list \<Rightarrow> frame_id_t list \<Rightarrow> nat) \<Rightarrow> LRUKReplacer" where
  "LRUKReplacer_ctor pol = \<lparr>history = [], evictable = [], policy = pol\<rparr>"

definition RecordAccess :: "frame_id_t \<Rightarrow> LRUKReplacer \<Rightarrow> LRUKReplacer" where
  "RecordAccess f r = r\<lparr>history := f # history r\<rparr>"

definition SetEvictable :: "frame_id_t \<Rightarrow> bool \<Rightarrow> LRUKReplacer \<Rightarrow> LRUKReplacer" where
  "SetEvictable f b r =
     r\<lparr>evictable := (if b then List.insert f (evictable r) else removeAll f (evictable r))\<rparr>"

definition Evict :: "LRUKReplacer \<Rightarrow> frame_id_t option \<times> LRUKReplacer" where
  "Evict r =
     (case evictable r of
        [] \<Rightarrow> (None, r)
      | c # cs \<Rightarrow>
          (let v = (c # cs) ! (policy r (history r) (c # cs) mod length (c # cs))
           in (Some v, r\<lparr>evictable := removeAll v (c # cs)\<rparr>)))"

definition Size :: "LRUKReplacer \<Rightarrow> nat" where
  "Size r = length (remdups (evictable r))"

section \<open>The disk manager and the disk scheduler\<close>

text \<open>
  Modelled from the spec: the class \<^verbatim>\<open>DiskManager\<close> (\<^verbatim>\<open>storage/disk/disk_manager.h\<close>) is not
  among the sources. \<open>write_page\<close> and \<open>read_page\<close> are synchronous and move one page of
  bytes; a page that was never written reads as zeros; \<open>increase_disk_space\<close> makes the store
  address at least the given number of pages; \<open>deallocate\<close> marks a page id as no longer in
  use.
\<close>

record DiskManager =
  pages :: "page_id_t \<rightharpoonup> byte list"
  page_capacity :: nat
  deallocated :: "page_id_t list"

definition DiskManager_ctor :: DiskManager where
  "DiskManager_ctor = \<lparr>pages = Map.empty, page_capacity = 0, deallocated = []\<rparr>"

definition DiskManager_WritePage :: "page_id_t \<Rightarrow> byte list \<Rightarrow> DiskManager \<Rightarrow> DiskManager" where
  "DiskManager_WritePage p buf d = d\<lparr>pages := (pages d)(p \<mapsto> buf)\<rparr>"

definition DiskManager_ReadPage :: "page_id_t \<Rightarrow> nat \<Rightarrow> DiskManager \<Rightarrow> byte list" where
  "DiskManager_ReadPage p n d =
     (case pages d p of
        None \<Rightarrow> replicate n 0
      | Some bs \<Rightarrow> take n bs @ replicate (n - length bs) 0)"

definition IncreaseDiskSpace :: "nat \<Rightarrow> DiskManager \<Rightarrow> DiskManager" where
  "IncreaseDiskSpace n d = d\<lparr>page_capacity := max (page_capacity d) n\<rparr>"

definition DeallocatePage :: "page_id_t \<Rightarrow> DiskManager \<Rightarrow> DiskManager" where
  "DeallocatePage p d = d\<lparr>deallocated := p # deallocated d\<rparr>"

text \<open>
  \<^verbatim>\<open>DiskRequest\<close>: \<^verbatim>\<open>is_write_\<close>, \<^verbatim>\<open>data_\<close> (a pointer into a frame's buffer: the frame's
  address), \<^verbatim>\<open>page_id_\<close> and \<^verbatim>\<open>callback_\<close> (the promise, named by a number).
\<close>

record DiskRequest =
  is_write :: bool
  req_data :: frame_id_t
  req_page_id :: page_id_t
  callback :: nat

text \<open>
  What the worker thread does is appended to \<open>io_trace\<close>, in the order it does it: the
  calls of the disk manager, each with the page id and the buffer it is given, and
  \<^verbatim>\<open>callback_.set_value\<close>.
\<close>

datatype io_event =
    DiskWrite page_id_t frame_id_t
  | DiskRead page_id_t frame_id_t
  | SetValue nat bool

record disk_world =
  frames :: "frame_id_t \<Rightarrow> FrameHeader"
  disk_manager :: DiskManager
  io_trace :: "io_event list"

text \<open>
  Modelled from the spec: the channel \<^verbatim>\<open>request_queue_\<close> (\<^verbatim>\<open>common/channel.h\<close> is not
  among the sources), "an unbounded FIFO queue": \<^verbatim>\<open>Put\<close> appends at the back, \<^verbatim>\<open>Get\<close>
  takes the front and waits while the queue is empty. Its elements are
  \<^verbatim>\<open>std::optional<DiskRequest>\<close>.
\<close>

definition Schedule :: "DiskRequest \<Rightarrow> DiskRequest option list \<Rightarrow> DiskRequest option list" where
  "Schedule r q = q @ [Some r]"

text \<open>\<^verbatim>\<open>~DiskScheduler\<close> puts \<^verbatim>\<open>std::nullopt\<close> and joins the worker.\<close>

definition DiskScheduler_dtor_put :: "DiskRequest option list \<Rightarrow> DiskRequest option list" where
  "DiskScheduler_dtor_put q = q @ [None]"

text \<open>The body of the worker's loop for one request (lines 50 to 58).\<close>

definition serve_request :: "DiskRequest \<Rightarrow> 'a disk_world_scheme \<Rightarrow> 'a disk_world_scheme" where
  "serve_request r w =
     (let w1 =
        (if is_write r
         then w\<lparr>disk_manager :=
                   DiskManager_WritePage (req_page_id r) (data (frames w (req_data r)))
                     (disk_manager w),
                 io_trace := io_trace w @ [DiskWrite (req_page_id r) (req_data r)]\<rparr>
         else w\<lparr>frames := (frames w)(req_data r :=
                   (frames w (req_data r))\<lparr>data :=
                      DiskManager_ReadPage (req_page_id r) (length (data (frames w (req_data r))))
                        (disk_manager w)\<rparr>),
                 io_trace := io_trace w @ [DiskRead (req_page_id r) (req_data r)]\<rparr>)
      in w1\<lparr>io_trace := io_trace w1 @ [SetValue (callback r) True]\<rparr>)"

text \<open>
  \<^verbatim>\<open>DiskScheduler::StartWorkerThread\<close> on the requests put so far, front first. It returns
  how the loop stands, what is left in the queue, and the state: \<open>Exited\<close> after the
  \<^verbatim>\<open>break\<close>, \<open>Waiting\<close> when \<^verbatim>\<open>Get\<close> waits on the empty queue.
\<close>

datatype worker_status = Exited | Waiting

fun StartWorkerThread ::
  "DiskRequest option list \<Rightarrow> 'a disk_world_scheme \<Rightarrow>
     worker_status \<times> DiskRequest option list \<times> 'a disk_world_scheme" where
  "StartWorkerThread [] w = (Waiting, [], w)"
| "StartWorkerThread (None # q) w = (Exited, q, w)"
| "StartWorkerThread (Some r # q) w = StartWorkerThread q (serve_request r w)"

section \<open>Calls that do not return\<close>

text \<open>
  What a call can do instead of returning: \<^verbatim>\<open>std::invalid_argument\<close> thrown by the read
  guard's constructor; a null pointer dereferenced; \<^verbatim>\<open>lock()\<close> on a latch that is held,
  where the caller waits for the holder; \<^verbatim>\<open>unlock()\<close> on a latch that is not held
  exclusively, which the C++ standard leaves undefined; \<^verbatim>\<open>value()\<close> on an empty
  \<^verbatim>\<open>std::optional\<close>; a failed \<^verbatim>\<open>BUSTUB_ENSURE\<close> (modelled from the spec: the use of
  an invalid guard fails loudly); \<^verbatim>\<open>std::abort()\<close>; a failed \<^verbatim>\<open>BUSTUB_ASSERT\<close>.
\<close>

datatype error =
    InvalidArgument
  | NullPointer
  | LatchHeld
  | UnlockNotOwned
  | BadOptionalAccess
  | EnsureFailed
  | Aborted
  | AssertionFailed

section \<open>The buffer pool manager\<close>

text \<open>
  \<^verbatim>\<open>page_table_\<close> is a \<^verbatim>\<open>std::unordered_map\<close>; it is an association list, looked up with
  \<open>map_of\<close>. \<^verbatim>\<open>erase\<close> is \<open>AList.delete\<close>, \<^verbatim>\<open>page_table_[p] = f\<close> is
  \<open>AList.update\<close>. The order of the list is not the order in which the map's iterator
  visits the entries, which C++ leaves open: \<^verbatim>\<open>FlushAllPages\<close> takes that order as a
  parameter (\<open>visit_order\<close> below). \<^verbatim>\<open>FindPage\<close> looks for the one entry of a frame and
  walks the list. \<^verbatim>\<open>free_frames_\<close> is a \<^verbatim>\<open>std::list\<close>. \<open>promises_made\<close> counts the
  promises that \<^verbatim>\<open>CreatePromise\<close> has handed out, and names the next one.
\<close>

record BufferPoolManager = disk_world +
  num_frames :: nat
  next_page_id :: page_id_t
  page_table :: "(page_id_t \<times> frame_id_t) list"
  free_frames :: "frame_id_t list"
  replacer :: LRUKReplacer
  promises_made :: nat

text \<open>
  \<^verbatim>\<open>BufferPoolManager::BufferPoolManager\<close>. The policy stands for the replacer that
  \<^verbatim>\<open>k_dist\<close> selects; the disk manager is the one passed in. The free list holds the
  frame ids \<open>0, ..., n - 1\<close>, the only addresses of the store that the pool ever uses.
\<close>

definition BufferPoolManager_ctor ::
  "nat \<Rightarrow> DiskManager \<Rightarrow> (frame_id_t list \<Rightarrow> frame_id_t list \<Rightarrow> nat) \<Rightarrow> BufferPoolManager" where
  "BufferPoolManager_ctor n dm pol =
     \<lparr>frames = FrameHeader_ctor, disk_manager = dm, io_trace = [],
      num_frames = n, next_page_id = 0, page_table = [], free_frames = [0..<n],
      replacer = LRUKReplacer_ctor pol, promises_made = 0\<rparr>"

text \<open>
  The idiom \<^verbatim>\<open>CreatePromise(); get_future(); Schedule({w, frames_[f]->data_.data(), p,
  promise}); future.get()\<close> of the manager: the request is put on the queue, which holds
  nothing else since the manager waits for every request it schedules, and
  \<^verbatim>\<open>future.get()\<close> returns once the worker has served it.
\<close>

definition schedule_and_wait ::
  "bool \<Rightarrow> frame_id_t \<Rightarrow> page_id_t \<Rightarrow> BufferPoolManager \<Rightarrow> BufferPoolManager" where
  "schedule_and_wait w f p s =
     (let r = \<lparr>is_write = w, req_data = f, req_page_id = p, callback = promises_made s\<rparr>;
          s1 = s\<lparr>promises_made := Suc (promises_made s)\<rparr>
      in snd (snd (StartWorkerThread (Schedule r []) s1)))"

text \<open>
  Modelled from the spec: \<^verbatim>\<open>DiskScheduler::IncreaseDiskSpace\<close> (declared in a header that is
  not among the sources) takes the size up to which the store must reach; a
  \<^verbatim>\<open>page_id_t\<close> converts to it as a 32-bit signed integer converts to \<^verbatim>\<open>size_t\<close>.
\<close>

definition size_t_of_page_id :: "page_id_t \<Rightarrow> nat" where
  "size_t_of_page_id p = (if 0 \<le> sint p then nat (sint p) else nat (2 ^ 64 + sint p))"

text \<open>\<^verbatim>\<open>BufferPoolManager::NewPage\<close>.\<close>

definition NewPage :: "BufferPoolManager \<Rightarrow> page_id_t \<times> BufferPoolManager" where
  "NewPage s =
     (let new_page_id = next_page_id s;
          s1 = s\<lparr>next_page_id := next_page_id s + 1\<rparr>;
          s2 = s1\<lparr>disk_manager :=
                    IncreaseDiskSpace (size_t_of_page_id (next_page_id s1)) (disk_manager s1)\<rparr>
      in (new_page_id, s2))"

text \<open>\<^verbatim>\<open>BufferPoolManager::FlushPage\<close>.\<close>

definition FlushPage :: "page_id_t \<Rightarrow> BufferPoolManager \<Rightarrow> bool \<times> BufferPoolManager" where
  "FlushPage p s =
     (case map_of (page_table s) p of
        None \<Rightarrow> (False, s)
      | Some f \<Rightarrow>
          if \<not> is_dirty (frames s f) then (False, s)
          else (let s1 = schedule_and_wait True f p s
                in (True, s1\<lparr>frames := (frames s1)(f := (frames s1 f)\<lparr>is_dirty := False\<rparr>)\<rparr>)))"

text \<open>
  The order in which \<^verbatim>\<open>for (auto page : page_table_)\<close> visits the entries of the
  \<^verbatim>\<open>std::unordered_map\<close>. The C++ standard does not fix it, and it need not be the order
  of insertion. It is the parameter \<open>visit_rank\<close>: the entries are visited by increasing
  rank of their page ids, so every order of the entries is the order of some rank.
\<close>

definition visit_order ::
  "(page_id_t \<Rightarrow> nat) \<Rightarrow> (page_id_t \<times> frame_id_t) list \<Rightarrow> (page_id_t \<times> frame_id_t) list" where
  "visit_order visit_rank pt = sort_key (\<lambda>elem. visit_rank (fst elem)) pt"

text \<open>
  \<^verbatim>\<open>BufferPoolManager::FlushAllPages\<close>: the loop over the page table. When
  \<^verbatim>\<open>FlushPage\<close> returns false the body runs
  \<^verbatim>\<open>BUSTUB_ASSERT("wrong when flushing all pages, at page id: {}.", page.first)\<close>. The
  macro (\<^verbatim>\<open>common/macros.h\<close>) is not among the sources and the spec does not mention it:
  whether the assertion passes for a page id is the parameter \<open>bustub_assert\<close>, with the
  two instances \<open>upstream_assert\<close> and \<open>assertions_off\<close> below.
\<close>

fun flush_each ::
  "(page_id_t \<Rightarrow> bool) \<Rightarrow> (page_id_t \<times> frame_id_t) list \<Rightarrow> BufferPoolManager \<Rightarrow>
     error + BufferPoolManager" where
  "flush_each bustub_assert [] s = Inr s"
| "flush_each bustub_assert (page # rest) s =
     (case FlushPage (fst page) s of
        (flushed_ok, s1) \<Rightarrow>
          if \<not> flushed_ok \<and> \<not> bustub_assert (fst page) then Inl AssertionFailed
          else flush_each bustub_assert rest s1)"

definition FlushAllPages ::
  "(page_id_t \<Rightarrow> bool) \<Rightarrow> (page_id_t \<Rightarrow> nat) \<Rightarrow> BufferPoolManager \<Rightarrow>
     error + BufferPoolManager" where
  "FlushAllPages bustub_assert visit_rank s =
     flush_each bustub_assert (visit_order visit_rank (page_table s)) s"

text \<open>
  The macro as BusTub defines it, \<^verbatim>\<open>#define BUSTUB_ASSERT(expr, message) assert((expr) &&
  (message))\<close>, in a build with assertions on. In \<^verbatim>\<open>FlushAllPages\<close> the first argument
  is a string literal, which is never null, and the second is the page id: the assertion
  passes exactly when the page id is not 0.
\<close>

definition upstream_assert :: "page_id_t \<Rightarrow> bool" where
  "upstream_assert p = (p \<noteq> 0)"

text \<open>The macro in a build with assertions compiled out: it always passes.\<close>

definition assertions_off :: "page_id_t \<Rightarrow> bool" where
  "assertions_off p = True"

text \<open>\<^verbatim>\<open>BufferPoolManager::DeletePage\<close>.\<close>

definition DeletePage :: "page_id_t \<Rightarrow> BufferPoolManager \<Rightarrow> bool \<times> BufferPoolManager" where
  "DeletePage p s =
     (case map_of (page_table s) p of
        None \<Rightarrow> (True, s)
      | Some cur_frame_id \<Rightarrow>
          if 0 < pin_count (frames s cur_frame_id) then (False, s)
          else
            (let s1 = s\<lparr>page_table := AList.delete p (page_table s),
                        free_frames := free_frames s @ [cur_frame_id]\<rparr>;
                 s2 = (if is_dirty (frames s1 cur_frame_id) then snd (FlushPage p s1) else s1);
                 s3 = s2\<lparr>disk_manager := DeallocatePage p (disk_manager s2)\<rparr>;
                 s4 = s3\<lparr>frames := (frames s3)(cur_frame_id := Reset (frames s3 cur_frame_id))\<rparr>
             in (True, s4)))"

text \<open>\<^verbatim>\<open>BufferPoolManager::GetPinCount\<close>.\<close>

definition GetPinCount :: "page_id_t \<Rightarrow> BufferPoolManager \<Rightarrow> 64 word option" where
  "GetPinCount p s =
     (case map_of (page_table s) p of
        None \<Rightarrow> None
      | Some f \<Rightarrow> Some (pin_count (frames s f)))"

text \<open>\<^verbatim>\<open>BufferPoolManager::UnpinPage\<close>; it does not read \<^verbatim>\<open>is_dirty\<close>.\<close>

definition UnpinPage :: "page_id_t \<Rightarrow> bool \<Rightarrow> BufferPoolManager \<Rightarrow> bool \<times> BufferPoolManager" where
  "UnpinPage p dirty s =
     (case map_of (page_table s) p of
        None \<Rightarrow> (False, s)
      | Some f \<Rightarrow>
          if 0 < pin_count (frames s f) then (False, s)
          else if pin_count (frames s f) = 0
               then (True, s\<lparr>replacer := SetEvictable f True (replacer s)\<rparr>)
               else (True, s))"

text \<open>
  \<^verbatim>\<open>BufferPoolManager::FindPage\<close>: the first entry of the page table with the frame; a
  page id of \<^verbatim>\<open>-1\<close> counts as not found.
\<close>

definition FindPage :: "frame_id_t \<Rightarrow> BufferPoolManager \<Rightarrow> page_id_t option" where
  "FindPage evicted_frame_id s =
     (case find (\<lambda>elem. snd elem = evicted_frame_id) (page_table s) of
        None \<Rightarrow> None
      | Some elem \<Rightarrow> if fst elem \<noteq> - 1 then Some (fst elem) else None)"

text \<open>
  \<^verbatim>\<open>BufferPoolManager::AcquireRWLock\<close>: whether \<^verbatim>\<open>try_lock\<close> succeeds; the latch is
  released at once, so the frame is as before. The callers ignore the result. (When it
  fails the function unlocks the pool latch, which a single thread does not observe.)
\<close>

definition AcquireRWLock :: "frame_id_t \<Rightarrow> BufferPoolManager \<Rightarrow> bool" where
  "AcquireRWLock f s = (rwlatch (frames s f) = Unlocked)"

section \<open>Page guards\<close>

text \<open>
  \<^verbatim>\<open>ReadPageGuard\<close> and \<^verbatim>\<open>WritePageGuard\<close> have the same five fields: \<^verbatim>\<open>page_id_\<close>,
  \<^verbatim>\<open>frame_\<close> (a frame address or null), \<^verbatim>\<open>replacer_\<close> and \<^verbatim>\<open>bpm_latch_\<close> (the pool's
  replacer and latch, or null: \<open>True\<close> when set) and \<^verbatim>\<open>is_valid_\<close>.
\<close>

record PageGuard =
  guard_page_id :: page_id_t
  guard_frame :: "frame_id_t option"
  guard_replacer :: bool
  guard_bpm_latch :: bool
  is_valid :: bool

definition modify_frame ::
  "frame_id_t \<Rightarrow> (FrameHeader \<Rightarrow> FrameHeader) \<Rightarrow> BufferPoolManager \<Rightarrow> BufferPoolManager" where
  "modify_frame f upd s = s\<lparr>frames := (frames s)(f := upd (frames s f))\<rparr>"

text \<open>
  \<^verbatim>\<open>ReadPageGuard::ReadPageGuard(page_id, frame, replacer, bpm_latch)\<close>; the manager passes
  its own replacer and latch.
\<close>

definition ReadPageGuard_ctor ::
  "page_id_t \<Rightarrow> frame_id_t option \<Rightarrow> BufferPoolManager \<Rightarrow> error + (PageGuard \<times> BufferPoolManager)" where
  "ReadPageGuard_ctor p frame s =
     (case frame of
        None \<Rightarrow> Inl InvalidArgument
      | Some f \<Rightarrow>
          if rwlatch (frames s f) \<noteq> Unlocked then Inl LatchHeld
          else
            (let s1 = modify_frame f (\<lambda>fr. fr\<lparr>rwlatch := ExclusiveLocked\<rparr>) s;
                 s2 = modify_frame f (\<lambda>fr. fr\<lparr>pin_count := pin_count fr + 1\<rparr>) s1;
                 s3 = s2\<lparr>replacer := SetEvictable f False (replacer s2)\<rparr>
             in Inr (\<lparr>guard_page_id = p, guard_frame = Some f, guard_replacer = True,
                      guard_bpm_latch = True, is_valid = True\<rparr>, s3)))"

text \<open>\<^verbatim>\<open>WritePageGuard::WritePageGuard(page_id, frame, replacer, bpm_latch)\<close>.\<close>

definition WritePageGuard_ctor ::
  "page_id_t \<Rightarrow> frame_id_t option \<Rightarrow> BufferPoolManager \<Rightarrow> error + (PageGuard \<times> BufferPoolManager)" where
  "WritePageGuard_ctor p frame s =
     (case frame of
        None \<Rightarrow> Inl NullPointer
      | Some f \<Rightarrow>
          if rwlatch (frames s f) \<noteq> Unlocked then Inl LatchHeld
          else
            (let s1 = modify_frame f (\<lambda>fr. fr\<lparr>rwlatch := ExclusiveLocked\<rparr>) s;
                 s2 = modify_frame f (\<lambda>fr. fr\<lparr>pin_count := pin_count fr + 1\<rparr>) s1
             in Inr (\<lparr>guard_page_id = p, guard_frame = Some f, guard_replacer = True,
                      guard_bpm_latch = True, is_valid = True\<rparr>, s2)))"

text \<open>
  The move constructors: the new guard, and \<^verbatim>\<open>that\<close> as it is left.
\<close>

definition ReadPageGuard_move :: "PageGuard \<Rightarrow> PageGuard \<times> PageGuard" where
  "ReadPageGuard_move that =
     (\<lparr>guard_page_id = guard_page_id that, guard_frame = guard_frame that,
       guard_replacer = guard_replacer that, guard_bpm_latch = guard_bpm_latch that,
       is_valid = is_valid that\<rparr>,
      that\<lparr>is_valid := False, guard_bpm_latch := False, guard_frame := None,
           guard_replacer := False\<rparr>)"

definition WritePageGuard_move :: "PageGuard \<Rightarrow> PageGuard \<times> PageGuard" where
  "WritePageGuard_move that =
     (\<lparr>guard_page_id = guard_page_id that, guard_frame = guard_frame that,
       guard_replacer = guard_replacer that, guard_bpm_latch = guard_bpm_latch that,
       is_valid = is_valid that\<rparr>,
      that\<lparr>is_valid := False, guard_bpm_latch := False, guard_frame := None,
           guard_replacer := False\<rparr>)"

text \<open>\<^verbatim>\<open>ReadPageGuard::Drop\<close>.\<close>

definition ReadPageGuard_Drop ::
  "PageGuard \<Rightarrow> BufferPoolManager \<Rightarrow> error + (PageGuard \<times> BufferPoolManager)" where
  "ReadPageGuard_Drop g s =
     (if is_valid g then
        (case guard_frame g of
           None \<Rightarrow> Inl NullPointer
         | Some f \<Rightarrow>
             if rwlatch (frames s f) \<noteq> ExclusiveLocked then Inl UnlockNotOwned
             else
               (let s1 = modify_frame f (\<lambda>fr. fr\<lparr>rwlatch := Unlocked\<rparr>) s;
                    g1 = g\<lparr>is_valid := False\<rparr>;
                    s2 = modify_frame f (\<lambda>fr. fr\<lparr>pin_count := pin_count fr - 1\<rparr>) s1
                in if pin_count (frames s2 f) = 0
                   then (if guard_replacer g
                         then Inr (g1, s2\<lparr>replacer := SetEvictable f True (replacer s2)\<rparr>)
                         else Inl NullPointer)
                   else Inr (g1, s2)))
      else Inr (g, s))"

text \<open>\<^verbatim>\<open>WritePageGuard::Drop\<close>.\<close>

definition WritePageGuard_Drop ::
  "PageGuard \<Rightarrow> BufferPoolManager \<Rightarrow> error + (PageGuard \<times> BufferPoolManager)" where
  "WritePageGuard_Drop g s =
     (if is_valid g then
        (case guard_frame g of
           None \<Rightarrow> Inl NullPointer
         | Some f \<Rightarrow>
             if rwlatch (frames s f) \<noteq> ExclusiveLocked then Inl UnlockNotOwned
             else
               (let s1 = modify_frame f (\<lambda>fr. fr\<lparr>rwlatch := Unlocked\<rparr>) s;
                    g1 = g\<lparr>is_valid := False\<rparr>;
                    s2 = modify_frame f (\<lambda>fr. fr\<lparr>pin_count := pin_count fr - 1\<rparr>) s1
                in if pin_count (frames s2 f) = 0
                   then (if guard_replacer g
                         then Inr (g1, s2\<lparr>replacer := SetEvictable f True (replacer s2)\<rparr>)
                         else Inl NullPointer)
                   else Inr (g1, s2)))
      else Inr (g, s))"

text \<open>The destructors print and call \<^verbatim>\<open>Drop()\<close>.\<close>

definition ReadPageGuard_dtor ::
  "PageGuard \<Rightarrow> BufferPoolManager \<Rightarrow> error + (PageGuard \<times> BufferPoolManager)" where
  "ReadPageGuard_dtor g s = ReadPageGuard_Drop g s"

definition WritePageGuard_dtor ::
  "PageGuard \<Rightarrow> BufferPoolManager \<Rightarrow> error + (PageGuard \<times> BufferPoolManager)" where
  "WritePageGuard_dtor g s = WritePageGuard_Drop g s"

text \<open>
  \<^verbatim>\<open>WritePageGuard::GetDataMut\<close>: marks the frame dirty and returns the buffer's address.
\<close>

definition GetDataMut ::
  "PageGuard \<Rightarrow> BufferPoolManager \<Rightarrow> error + (frame_id_t \<times> BufferPoolManager)" where
  "GetDataMut g s =
     (if \<not> is_valid g then Inl EnsureFailed
      else (case guard_frame g of
              None \<Rightarrow> Inl NullPointer
            | Some f \<Rightarrow> Inr (f, modify_frame f (\<lambda>fr. fr\<lparr>is_dirty := True\<rparr>) s)))"

section \<open>Bringing a page in\<close>

text \<open>\<^verbatim>\<open>std::make_optional\<close> around a constructed guard.\<close>

definition make_optional ::
  "error + (PageGuard \<times> BufferPoolManager) \<Rightarrow> error + (PageGuard option \<times> BufferPoolManager)" where
  "make_optional r = (case r of Inl e \<Rightarrow> Inl e | Inr (g, s) \<Rightarrow> Inr (Some g, s))"

text \<open>
  Case 2 of \<^verbatim>\<open>CheckedWritePage\<close> and \<^verbatim>\<open>CheckedReadPage\<close> up to the disk read: the front
  of the free list is taken, the access recorded, the page table entry written.
\<close>

definition take_free_frame ::
  "page_id_t \<Rightarrow> frame_id_t \<Rightarrow> frame_id_t list \<Rightarrow> BufferPoolManager \<Rightarrow> BufferPoolManager" where
  "take_free_frame p f rest s =
     (let s1 = s\<lparr>free_frames := rest\<rparr>;
          s2 = s1\<lparr>replacer := RecordAccess f (replacer s1)\<rparr>
      in s2\<lparr>page_table := AList.update p f (page_table s2)\<rparr>)"

text \<open>
  Case 3 up to the disk read, for the victim \<open>f\<close> that held \<open>evicted_page_id\<close>:
  \<^verbatim>\<open>FlushPage\<close>, \<^verbatim>\<open>Reset\<close>, \<^verbatim>\<open>RecordAccess\<close>, \<^verbatim>\<open>erase\<close>, and the new page table entry.
\<close>

definition reclaim_victim ::
  "page_id_t \<Rightarrow> frame_id_t \<Rightarrow> page_id_t \<Rightarrow> BufferPoolManager \<Rightarrow> BufferPoolManager" where
  "reclaim_victim p f evicted_page_id s =
     (let s1 = snd (FlushPage evicted_page_id s);
          s2 = modify_frame f Reset s1;
          s3 = s2\<lparr>replacer := RecordAccess f (replacer s2)\<rparr>;
          s4 = s3\<lparr>page_table := AList.delete evicted_page_id (page_table s3)\<rparr>
      in s4\<lparr>page_table := AList.update p f (page_table s4)\<rparr>)"

text \<open>\<^verbatim>\<open>BufferPoolManager::CheckedWritePage\<close>.\<close>

definition CheckedWritePage ::
  "page_id_t \<Rightarrow> BufferPoolManager \<Rightarrow> error + (PageGuard option \<times> BufferPoolManager)" where
  "CheckedWritePage p s =
     (case map_of (page_table s) p of
        Some f \<Rightarrow>
          make_optional
            (WritePageGuard_ctor p (Some f) (s\<lparr>replacer := RecordAccess f (replacer s)\<rparr>))
      | None \<Rightarrow>
          (case free_frames s of
             f # rest \<Rightarrow>
               make_optional
                 (WritePageGuard_ctor p (Some f)
                    (schedule_and_wait False f p (take_free_frame p f rest s)))
           | [] \<Rightarrow>
               (case Evict (replacer s) of
                  (Some f, r) \<Rightarrow>
                    (case FindPage f (s\<lparr>replacer := r\<rparr>) of
                       None \<Rightarrow> Inl BadOptionalAccess
                     | Some evicted_page_id \<Rightarrow>
                         make_optional
                           (WritePageGuard_ctor p (Some f)
                              (schedule_and_wait False f p
                                 (reclaim_victim p f evicted_page_id (s\<lparr>replacer := r\<rparr>)))))
                | (None, r) \<Rightarrow> Inr (None, s\<lparr>replacer := r\<rparr>))))"

text \<open>\<^verbatim>\<open>BufferPoolManager::CheckedReadPage\<close>.\<close>

definition CheckedReadPage ::
  "page_id_t \<Rightarrow> BufferPoolManager \<Rightarrow> error + (PageGuard option \<times> BufferPoolManager)" where
  "CheckedReadPage p s =
     (case map_of (page_table s) p of
        Some f \<Rightarrow>
          make_optional
            (ReadPageGuard_ctor p (Some f) (s\<lparr>replacer := RecordAccess f (replacer s)\<rparr>))
      | None \<Rightarrow>
          (case free_frames s of
             f # rest \<Rightarrow>
               make_optional
                 (ReadPageGuard_ctor p (Some f)
                    (schedule_and_wait False f p (take_free_frame p f rest s)))
           | [] \<Rightarrow>
               (case Evict (replacer s) of
                  (Some f, r) \<Rightarrow>
                    (case FindPage f (s\<lparr>replacer := r\<rparr>) of
                       None \<Rightarrow> Inl BadOptionalAccess
                     | Some evicted_page_id \<Rightarrow>
                         make_optional
                           (ReadPageGuard_ctor p (Some f)
                              (schedule_and_wait False f p
                                 (reclaim_victim p f evicted_page_id (s\<lparr>replacer := r\<rparr>)))))
                | (None, r) \<Rightarrow> Inr (None, s\<lparr>replacer := r\<rparr>))))"

text \<open>
  \<^verbatim>\<open>BufferPoolManager::WritePage\<close> and \<^verbatim>\<open>BufferPoolManager::ReadPage\<close>: the guard, or
  \<^verbatim>\<open>std::abort()\<close> when the checked call returns \<^verbatim>\<open>std::nullopt\<close>.
\<close>

definition WritePage ::
  "page_id_t \<Rightarrow> BufferPoolManager \<Rightarrow> error + (PageGuard \<times> BufferPoolManager)" where
  "WritePage p s =
     (case CheckedWritePage p s of
        Inl e \<Rightarrow> Inl e
      | Inr (None, s1) \<Rightarrow> Inl Aborted
      | Inr (Some g, s1) \<Rightarrow> Inr (g, s1))"

definition ReadPage ::
  "page_id_t \<Rightarrow> BufferPoolManager \<Rightarrow> error + (PageGuard \<times> BufferPoolManager)" where
  "ReadPage p s =
     (case CheckedReadPage p s of
        Inl e \<Rightarrow> Inl e
      | Inr (None, s1) \<Rightarrow> Inl Aborted
      | Inr (Some g, s1) \<Rightarrow> Inr (g, s1))"

section \<open>Runs of the client interface\<close>

text \<open>Several calls in a row; a call that does not return ends the run.\<close>

definition then_run :: "error + 'a \<Rightarrow> ('a \<Rightarrow> error + 'b) \<Rightarrow> error + 'b" where
  "then_run r k = (case r of Inl e \<Rightarrow> Inl e | Inr x \<Rightarrow> k x)"

text \<open>\<open>NewPage_times n\<close>: the page ids that \<open>n\<close> calls of \<^verbatim>\<open>NewPage\<close> return, in order.\<close>

fun NewPage_times :: "nat \<Rightarrow> BufferPoolManager \<Rightarrow> page_id_t list \<times> BufferPoolManager" where
  "NewPage_times 0 s = ([], s)"
| "NewPage_times (Suc n) s =
     (case NewPage s of
        (p, s1) \<Rightarrow> (case NewPage_times n s1 of (ps, s2) \<Rightarrow> (p # ps, s2)))"

text \<open>A policy for the runs below: the first candidate.\<close>

definition first_candidate :: "frame_id_t list \<Rightarrow> frame_id_t list \<Rightarrow> nat" where
  "first_candidate h c = 0"

text \<open>A pool of one frame over an empty disk.\<close>

definition pool1 :: BufferPoolManager where
  "pool1 = BufferPoolManager_ctor 1 DiskManager_ctor first_candidate"

text \<open>
  \<^verbatim>\<open>auto g = bpm.WritePage(0); g.GetDataMut(); g.Drop();\<close> on \<open>pool1\<close>: page 0 is
  resident in frame 0, dirty, with no guard alive.
\<close>

definition dirty_run :: "error + (PageGuard \<times> BufferPoolManager)" where
  "dirty_run =
     then_run (WritePage 0 pool1) (\<lambda>(g, s1).
     then_run (GetDataMut g s1) (\<lambda>(f, s2).
     WritePageGuard_Drop g s2))"

definition dirty_pool :: BufferPoolManager where
  "dirty_pool = (case dirty_run of Inr (g, s) \<Rightarrow> s | Inl e \<Rightarrow> pool1)"

text \<open>
  \<^verbatim>\<open>bpm.WritePage(0).Drop(); auto g = bpm.WritePage(0);\<close> on \<open>pool1\<close>: page 0 is
  written, released, and written again; the second write guard is alive.
\<close>

definition rewrite_run :: "error + (PageGuard \<times> BufferPoolManager)" where
  "rewrite_run =
     then_run (WritePage 0 pool1) (\<lambda>(g1, s1).
     then_run (WritePageGuard_Drop g1 s1) (\<lambda>(g1', s2).
     WritePage 0 s2))"

definition rewrite_pool :: BufferPoolManager where
  "rewrite_pool = (case rewrite_run of Inr (g, s) \<Rightarrow> s | Inl e \<Rightarrow> pool1)"

definition rewrite_guard :: PageGuard where
  "rewrite_guard =
     (case rewrite_run of
        Inr (g, s) \<Rightarrow> g
      | Inl e \<Rightarrow> \<lparr>guard_page_id = 0, guard_frame = None, guard_replacer = False,
                    guard_bpm_latch = False, is_valid = False\<rparr>)"

text \<open>A pool of one frame over a disk whose page 0 holds the byte 7 throughout.\<close>

definition pool7 :: BufferPoolManager where
  "pool7 =
     BufferPoolManager_ctor 1
       (DiskManager_WritePage 0 (replicate BUSTUB_PAGE_SIZE 7) DiskManager_ctor) first_candidate"

text \<open>\<^verbatim>\<open>auto g = bpm.ReadPage(0);\<close> on \<open>pool7\<close>: a read guard is alive.\<close>

definition read_run :: "error + (PageGuard \<times> BufferPoolManager)" where
  "read_run = ReadPage 0 pool7"

definition read_pool :: BufferPoolManager where
  "read_pool = (case read_run of Inr (g, s) \<Rightarrow> s | Inl e \<Rightarrow> pool7)"

definition read_guard :: PageGuard where
  "read_guard =
     (case read_run of
        Inr (g, s) \<Rightarrow> g
      | Inl e \<Rightarrow> \<lparr>guard_page_id = 0, guard_frame = None, guard_replacer = False,
                    guard_bpm_latch = False, is_valid = False\<rparr>)"

text \<open>
  \<^verbatim>\<open>bpm.ReadPage(0).Drop();\<close> on \<open>pool7\<close>: page 0 is resident and clean, no guard is
  alive, the free list is empty.
\<close>

definition full_pool :: BufferPoolManager where
  "full_pool =
     (case then_run read_run (\<lambda>(g, s). ReadPageGuard_Drop g s) of
        Inr (g, s) \<Rightarrow> s
      | Inl e \<Rightarrow> pool7)"

text \<open>
  What serving one request adds to the trace: the disk manager's call, then the promise.
\<close>

definition request_events :: "DiskRequest \<Rightarrow> io_event list" where
  "request_events r =
     [(if is_write r then DiskWrite (req_page_id r) (req_data r)
       else DiskRead (req_page_id r) (req_data r)),
      SetValue (callback r) True]"

text \<open>Two requests on frame 0: a write of page 5, then a read of page 6.\<close>

definition write_then_read_1 :: DiskRequest where
  "write_then_read_1 = \<lparr>is_write = True, req_data = 0, req_page_id = 5, callback = 7\<rparr>"

definition write_then_read_2 :: DiskRequest where
  "write_then_read_2 = \<lparr>is_write = False, req_data = 0, req_page_id = 6, callback = 8\<rparr>"

text \<open>
  The pool after \<^verbatim>\<open>FlushPage\<close> has been called on the page id of every entry of a list,
  front first: what the loop of \<^verbatim>\<open>FlushAllPages\<close> does to the entries in the order it
  visits them, when no assertion stops it.
\<close>

fun flushed :: "(page_id_t \<times> frame_id_t) list \<Rightarrow> BufferPoolManager \<Rightarrow> BufferPoolManager" where
  "flushed [] s = s"
| "flushed (page # rest) s = flushed rest (snd (FlushPage (fst page) s))"

text \<open>
  What the spec says a first drop of a guard on frame \<open>f\<close> does to the pool: the pin count
  is one less, the frame is marked evictable in the replacer if the pin count became 0,
  and the latch is released.
\<close>

definition released :: "frame_id_t \<Rightarrow> BufferPoolManager \<Rightarrow> BufferPoolManager" where
  "released f s =
     (let s1 = s\<lparr>frames := (frames s)(f := (frames s f)\<lparr>rwlatch := Unlocked,
                                                        pin_count := pin_count (frames s f) - 1\<rparr>)\<rparr>
      in if pin_count (frames s f) - 1 = 0
         then s1\<lparr>replacer := SetEvictable f True (replacer s)\<rparr>
         else s1)"

section \<open>The runs, evaluated\<close>

lemmas run_defs = pool1_def pool7_def BufferPoolManager_ctor_def CheckedWritePage_def CheckedReadPage_def
  WritePage_def ReadPage_def then_run_def
  WritePageGuard_ctor_def ReadPageGuard_ctor_def WritePageGuard_Drop_def ReadPageGuard_Drop_def
  make_optional_def take_free_frame_def reclaim_victim_def schedule_and_wait_def Schedule_def
  serve_request_def modify_frame_def FlushPage_def FindPage_def Evict_def RecordAccess_def
  SetEvictable_def LRUKReplacer_ctor_def DiskManager_ctor_def DiskManager_ReadPage_def
  DiskManager_WritePage_def FrameHeader_ctor_def Reset_def first_candidate_def Let_def
  GetDataMut_def

lemma dirty_run_returns:
  "dirty_run = Inr (\<lparr>guard_page_id = 0, guard_frame = Some 0, guard_replacer = True,
                      guard_bpm_latch = True, is_valid = False\<rparr>, dirty_pool)"
  by (simp add: dirty_pool_def dirty_run_def run_defs)

lemma dirty_pool_fields:
  "page_table dirty_pool = [(0, 0)]"
  "free_frames dirty_pool = []"
  "is_dirty (frames dirty_pool 0)"
  "pin_count (frames dirty_pool 0) = 0"
  "rwlatch (frames dirty_pool 0) = Unlocked"
  "evictable (replacer dirty_pool) = [0]"
  "io_trace dirty_pool = [DiskRead 0 0, SetValue 0 True]"
  "pages (disk_manager dirty_pool) = Map.empty"
  "data (frames dirty_pool 0) = replicate BUSTUB_PAGE_SIZE 0"
  "promises_made dirty_pool = 1"
  by (simp_all add: dirty_pool_def dirty_run_def run_defs)

lemma rewrite_run_returns: "rewrite_run = Inr (rewrite_guard, rewrite_pool)"
  by (simp add: rewrite_pool_def rewrite_guard_def rewrite_run_def run_defs)

lemma rewrite_pool_fields:
  "page_table rewrite_pool = [(0, 0)]"
  "free_frames rewrite_pool = []"
  "num_frames rewrite_pool = 1"
  "\<not> is_dirty (frames rewrite_pool 0)"
  "pin_count (frames rewrite_pool 0) = 1"
  "rwlatch (frames rewrite_pool 0) = ExclusiveLocked"
  "evictable (replacer rewrite_pool) = [0]"
  "is_valid rewrite_guard"
  "guard_frame rewrite_guard = Some 0"
  "guard_replacer rewrite_guard"
  by (simp_all add: rewrite_pool_def rewrite_guard_def rewrite_run_def run_defs)

lemma read_run_returns: "read_run = Inr (read_guard, read_pool)"
  by (simp add: read_pool_def read_guard_def read_run_def run_defs)

lemma read_pool_fields:
  "page_table read_pool = [(0, 0)]"
  "free_frames read_pool = []"
  "\<not> is_dirty (frames read_pool 0)"
  "pin_count (frames read_pool 0) = 1"
  "rwlatch (frames read_pool 0) = ExclusiveLocked"
  "evictable (replacer read_pool) = []"
  "data (frames read_pool 0) = replicate BUSTUB_PAGE_SIZE 7"
  "is_valid read_guard"
  "guard_frame read_guard = Some 0"
  "guard_replacer read_guard"
  by (simp_all add: read_pool_def read_guard_def read_run_def run_defs)

lemma full_pool_fields:
  "page_table full_pool = [(0, 0)]"
  "free_frames full_pool = []"
  "\<not> is_dirty (frames full_pool 0)"
  "pin_count (frames full_pool 0) = 0"
  "rwlatch (frames full_pool 0) = Unlocked"
  "evictable (replacer full_pool) = [0]"
  "data (frames full_pool 0) = replicate BUSTUB_PAGE_SIZE 7"
  "history (replacer full_pool) = [0]"
  "policy (replacer full_pool) = first_candidate"
  by (simp_all add: full_pool_def read_run_def run_defs)

section \<open>Flushing a page\<close>

lemma schedule_and_wait_write:
  "schedule_and_wait True f p s =
     s\<lparr>disk_manager := DiskManager_WritePage p (data (frames s f)) (disk_manager s),
       io_trace := io_trace s @ [DiskWrite p f, SetValue (promises_made s) True],
       promises_made := Suc (promises_made s)\<rparr>"
  by (simp add: schedule_and_wait_def Schedule_def serve_request_def Let_def)

lemma schedule_and_wait_read:
  "schedule_and_wait False f p s =
     s\<lparr>frames := (frames s)(f := (frames s f)\<lparr>data :=
          DiskManager_ReadPage p (length (data (frames s f))) (disk_manager s)\<rparr>),
       io_trace := io_trace s @ [DiskRead p f, SetValue (promises_made s) True],
       promises_made := Suc (promises_made s)\<rparr>"
  by (simp add: schedule_and_wait_def Schedule_def serve_request_def Let_def)

lemma FlushPage_absent: "map_of (page_table s) p = None \<Longrightarrow> FlushPage p s = (False, s)"
  by (simp add: FlushPage_def)

lemma FlushPage_clean:
  "map_of (page_table s) p = Some f \<Longrightarrow> \<not> is_dirty (frames s f) \<Longrightarrow> FlushPage p s = (False, s)"
  by (simp add: FlushPage_def)

lemma FlushPage_dirty:
  "map_of (page_table s) p = Some f \<Longrightarrow> is_dirty (frames s f) \<Longrightarrow>
   FlushPage p s =
     (True, s\<lparr>frames := (frames s)(f := (frames s f)\<lparr>is_dirty := False\<rparr>),
              disk_manager := DiskManager_WritePage p (data (frames s f)) (disk_manager s),
              io_trace := io_trace s @ [DiskWrite p f, SetValue (promises_made s) True],
              promises_made := Suc (promises_made s)\<rparr>)"
  by (simp add: FlushPage_def schedule_and_wait_write Let_def)

text \<open>
  C4. \<^verbatim>\<open>FlushPage(page_id)\<close> returns false and changes nothing when the page is not in the
  page table; it returns false and changes nothing, so writes nothing, when the page is
  resident and its frame is not dirty; otherwise it returns true, and when it returns the
  worker has written the frame's bytes to the page on disk and set the request's promise
  (the last two events of the trace), and the frame's dirty flag is off. Nothing else
  changes but the count of promises.
\<close>

theorem FlushPage_cases:
  "(map_of (page_table s) p = None \<longrightarrow> FlushPage p s = (False, s)) \<and>
   (\<forall>f. map_of (page_table s) p = Some f \<and> \<not> is_dirty (frames s f) \<longrightarrow>
        FlushPage p s = (False, s)) \<and>
   (\<forall>f. map_of (page_table s) p = Some f \<and> is_dirty (frames s f) \<longrightarrow>
        FlushPage p s =
          (True, s\<lparr>frames := (frames s)(f := (frames s f)\<lparr>is_dirty := False\<rparr>),
                   disk_manager := DiskManager_WritePage p (data (frames s f)) (disk_manager s),
                   io_trace := io_trace s @ [DiskWrite p f, SetValue (promises_made s) True],
                   promises_made := Suc (promises_made s)\<rparr>) \<and>
        pages (disk_manager (snd (FlushPage p s))) p = Some (data (frames s f)) \<and>
        \<not> is_dirty (frames (snd (FlushPage p s)) f))"
  by (simp add: FlushPage_absent FlushPage_clean FlushPage_dirty DiskManager_WritePage_def)

theorem FlushPage_cases_witness:
  "map_of (page_table dirty_pool) 1 = None \<and> FlushPage 1 dirty_pool = (False, dirty_pool) \<and>
   map_of (page_table full_pool) 0 = Some 0 \<and> \<not> is_dirty (frames full_pool 0) \<and>
   FlushPage 0 full_pool = (False, full_pool) \<and>
   map_of (page_table dirty_pool) 0 = Some 0 \<and> is_dirty (frames dirty_pool 0) \<and>
   fst (FlushPage 0 dirty_pool) \<and>
   pages (disk_manager (snd (FlushPage 0 dirty_pool))) 0 = Some (replicate BUSTUB_PAGE_SIZE 0) \<and>
   \<not> is_dirty (frames (snd (FlushPage 0 dirty_pool)) 0)"
  using FlushPage_cases [of dirty_pool 1] FlushPage_cases [of full_pool 0]
    FlushPage_cases [of dirty_pool 0]
  by (simp add: dirty_pool_fields full_pool_fields DiskManager_WritePage_def)

section \<open>Unpinning a page\<close>

text \<open>
  C9. \<^verbatim>\<open>UnpinPage\<close> leaves every frame as it is, so it decrements no pin count. It returns
  false, changing nothing, when the page is not in the page table or its frame's pin count
  is greater than 0. It returns true only when the page is resident with pin count 0, and
  then all it does is \<^verbatim>\<open>SetEvictable(frame, true)\<close> on the replacer.
\<close>

theorem UnpinPage_never_unpins:
  "frames (snd (UnpinPage p d s)) = frames s \<and>
   (map_of (page_table s) p = None \<longrightarrow> UnpinPage p d s = (False, s)) \<and>
   (\<forall>f. map_of (page_table s) p = Some f \<and> 0 < pin_count (frames s f) \<longrightarrow>
        UnpinPage p d s = (False, s)) \<and>
   (\<forall>f. map_of (page_table s) p = Some f \<and> pin_count (frames s f) = 0 \<longrightarrow>
        UnpinPage p d s = (True, s\<lparr>replacer := SetEvictable f True (replacer s)\<rparr>)) \<and>
   (fst (UnpinPage p d s) \<longrightarrow>
      (\<exists>f. map_of (page_table s) p = Some f \<and> pin_count (frames s f) = 0))"
  by (auto simp: UnpinPage_def word_gt_0 split: option.splits if_splits)

theorem UnpinPage_never_unpins_witness:
  "map_of (page_table rewrite_pool) 1 = None \<and>
   UnpinPage 1 False rewrite_pool = (False, rewrite_pool) \<and>
   map_of (page_table rewrite_pool) 0 = Some 0 \<and> 0 < pin_count (frames rewrite_pool 0) \<and>
   UnpinPage 0 True rewrite_pool = (False, rewrite_pool) \<and>
   map_of (page_table full_pool) 0 = Some 0 \<and> pin_count (frames full_pool 0) = 0 \<and>
   UnpinPage 0 False full_pool =
     (True, full_pool\<lparr>replacer := SetEvictable 0 True (replacer full_pool)\<rparr>) \<and>
   frames (snd (UnpinPage 0 False full_pool)) = frames full_pool"
  using UnpinPage_never_unpins [of 1 False rewrite_pool]
    UnpinPage_never_unpins [of 0 True rewrite_pool]
    UnpinPage_never_unpins [of 0 False full_pool]
  by (simp add: rewrite_pool_fields full_pool_fields)

section \<open>The worker of the disk scheduler\<close>

lemma io_trace_serve_request:
  "io_trace (serve_request r w) = io_trace w @ request_events r"
  by (simp add: serve_request_def request_events_def Let_def)

lemma serve_request_write:
  "is_write r \<Longrightarrow>
   disk_manager (serve_request r w) =
     DiskManager_WritePage (req_page_id r) (data (frames w (req_data r))) (disk_manager w) \<and>
   frames (serve_request r w) = frames w"
  by (simp add: serve_request_def Let_def)

lemma serve_request_read:
  "\<not> is_write r \<Longrightarrow>
   frames (serve_request r w) =
     (frames w)(req_data r := (frames w (req_data r))\<lparr>data :=
        DiskManager_ReadPage (req_page_id r) (length (data (frames w (req_data r))))
          (disk_manager w)\<rparr>) \<and>
   disk_manager (serve_request r w) = disk_manager w"
  by (simp add: serve_request_def Let_def)

lemma worker_stops_at_sentinel:
  "StartWorkerThread (map Some rs @ None # q) w =
     (Exited, q, foldl (\<lambda>w r. serve_request r w) w rs)"
  by (induction rs arbitrary: w) simp_all

lemma worker_waits_on_empty_queue:
  "StartWorkerThread (map Some rs) w = (Waiting, [], foldl (\<lambda>w r. serve_request r w) w rs)"
  by (induction rs arbitrary: w) simp_all

lemma io_trace_served:
  "io_trace (foldl (\<lambda>w r. serve_request r w) w rs) = io_trace w @ concat (map request_events rs)"
  by (induction rs arbitrary: w) (simp_all add: io_trace_serve_request)

lemma Schedule_in_order: "foldl (\<lambda>q r. Schedule r q) q rs = q @ map Some rs"
  by (induction rs arbitrary: q) (simp_all add: Schedule_def)

text \<open>
  C8. The worker takes the requests from the front of the queue, in the order they were
  scheduled: on the requests \<open>rs\<close> followed by the sentinel it serves \<open>rs\<close> one after the
  other, leaves the loop and touches nothing behind the sentinel; without a sentinel it
  serves them all and waits. Serving a request calls \<^verbatim>\<open>WritePage\<close> of the disk manager
  with the request's page id and buffer when \<^verbatim>\<open>is_write_\<close> is set and \<^verbatim>\<open>ReadPage\<close>
  otherwise, and the trace of the run is, request by request, that call followed by
  \<^verbatim>\<open>set_value(true)\<close> on the request's promise.
\<close>

theorem StartWorkerThread_fifo:
  "StartWorkerThread (map Some rs @ None # q) w =
     (Exited, q, foldl (\<lambda>w r. serve_request r w) w rs) \<and>
   StartWorkerThread (map Some rs) w = (Waiting, [], foldl (\<lambda>w r. serve_request r w) w rs) \<and>
   StartWorkerThread (DiskScheduler_dtor_put (foldl (\<lambda>q r. Schedule r q) [] rs)) w =
     (Exited, [], foldl (\<lambda>w r. serve_request r w) w rs) \<and>
   io_trace (foldl (\<lambda>w r. serve_request r w) w rs) =
     io_trace w @ concat (map request_events rs) \<and>
   (is_write r \<longrightarrow>
      disk_manager (serve_request r w) =
        DiskManager_WritePage (req_page_id r) (data (frames w (req_data r))) (disk_manager w) \<and>
      frames (serve_request r w) = frames w \<and>
      io_trace (serve_request r w) =
        io_trace w @ [DiskWrite (req_page_id r) (req_data r), SetValue (callback r) True]) \<and>
   (\<not> is_write r \<longrightarrow>
      frames (serve_request r w) =
        (frames w)(req_data r := (frames w (req_data r))\<lparr>data :=
           DiskManager_ReadPage (req_page_id r) (length (data (frames w (req_data r))))
             (disk_manager w)\<rparr>) \<and>
      disk_manager (serve_request r w) = disk_manager w \<and>
      io_trace (serve_request r w) =
        io_trace w @ [DiskRead (req_page_id r) (req_data r), SetValue (callback r) True])"
  using serve_request_write [of r w] serve_request_read [of r w]
  by (simp add: worker_stops_at_sentinel worker_waits_on_empty_queue io_trace_served
      Schedule_in_order DiskScheduler_dtor_put_def io_trace_serve_request request_events_def)

theorem StartWorkerThread_fifo_witness:
  "is_write write_then_read_1 \<and> \<not> is_write write_then_read_2 \<and>
   StartWorkerThread [Some write_then_read_1, Some write_then_read_2, None, Some write_then_read_1]
       dirty_pool =
     (Exited, [Some write_then_read_1],
      serve_request write_then_read_2 (serve_request write_then_read_1 dirty_pool)) \<and>
   io_trace (serve_request write_then_read_2 (serve_request write_then_read_1 dirty_pool)) =
     io_trace dirty_pool @
       [DiskWrite 5 0, SetValue 7 True, DiskRead 6 0, SetValue 8 True] \<and>
   pages (disk_manager (serve_request write_then_read_1 dirty_pool)) 5 =
     Some (data (frames dirty_pool 0)) \<and>
   disk_manager (serve_request write_then_read_2 dirty_pool) = disk_manager dirty_pool"
  using StartWorkerThread_fifo
          [of "[write_then_read_1, write_then_read_2]" "[Some write_then_read_1]" dirty_pool
              write_then_read_1]
        StartWorkerThread_fifo [of "[]" "[]" dirty_pool write_then_read_2]
  by (simp add: write_then_read_1_def write_then_read_2_def request_events_def
      DiskManager_WritePage_def)

section \<open>Allocating page ids\<close>

lemma NewPage_eq:
  "NewPage s =
     (next_page_id s,
      s\<lparr>next_page_id := next_page_id s + 1,
        disk_manager :=
          IncreaseDiskSpace (size_t_of_page_id (next_page_id s + 1)) (disk_manager s)\<rparr>)"
  by (simp add: NewPage_def Let_def)

lemma NewPage_times_ids:
  "fst (NewPage_times n s) = map (\<lambda>k. next_page_id s + of_nat k) [0..<n]"
proof (induction n arbitrary: s)
  case 0
  show ?case by simp
next
  case (Suc n)
  have "[0..<Suc n] = 0 # map Suc [0..<n]"
    by (simp add: upt_conv_Cons map_Suc_upt del: upt_Suc)
  then show ?case
    using Suc [of "snd (NewPage s)"]
    by (simp add: NewPage_eq case_prod_unfold ac_simps del: upt_Suc)
qed

lemma NewPage_times_counter:
  "next_page_id (snd (NewPage_times n s)) = next_page_id s + of_nat n"
proof (induction n arbitrary: s)
  case 0
  show ?case by simp
next
  case (Suc n)
  show ?case
    using Suc [of "snd (NewPage s)"]
    by (simp add: NewPage_eq case_prod_unfold ac_simps)
qed

lemma sint_of_nat_small:
  assumes "k < 2 ^ 31"
  shows "sint (of_nat k :: 32 word) = int k"
proof -
  have "sint (of_nat k :: 32 word) = signed_take_bit 31 (int k)"
    by (simp add: signed_of_nat)
  also have "\<dots> = int k"
    using assms by (intro signed_take_bit_int_eq_self) simp_all
  finally show ?thesis .
qed

lemma sint_plus_one:
  assumes "sint (w :: 32 word) < 2 ^ 31 - 1"
  shows "sint (w + 1) = sint w + 1"
proof -
  have low: "- (2 ^ 31) \<le> sint w"
    using sint_ge [of w] by simp
  have "sint (w + 1) = signed_take_bit 31 (sint w + 1)"
    by (simp add: sint_word_add)
  also have "\<dots> = sint w + 1"
    using assms low by (intro signed_take_bit_int_eq_self) simp_all
  finally show ?thesis .
qed

lemma NewPage_times_fresh_pool:
  assumes "k \<le> 2 ^ 31"
  shows "map sint (fst (NewPage_times k (BufferPoolManager_ctor n dm pol))) = map int [0..<k]"
proof -
  have "sint (of_nat i :: 32 word) = int i" if "i \<in> set [0..<k]" for i
    using that assms by (intro sint_of_nat_small) simp
  then show ?thesis
    by (simp add: NewPage_times_ids BufferPoolManager_ctor_def)
qed

lemma NewPage_reserves:
  assumes "0 \<le> sint (next_page_id s)" and "sint (next_page_id s) < 2 ^ 31 - 1"
  shows "sint (fst (NewPage s)) < int (page_capacity (disk_manager (snd (NewPage s))))"
proof -
  have "size_t_of_page_id (next_page_id s + 1) = nat (sint (next_page_id s) + 1)"
    using assms by (simp add: size_t_of_page_id_def sint_plus_one)
  then show ?thesis
    using assms by (simp add: NewPage_eq IncreaseDiskSpace_def)
qed

text \<open>
  C7, as the code has it. \<^verbatim>\<open>NewPage\<close> always returns: it returns the counter, adds one to
  it in 32-bit arithmetic, asks the disk for the space of the advanced counter, and leaves
  the page table, the free list, the frames and the replacer alone. The first call on a new
  pool returns 0. While the counter is below \<open>2^31 - 1\<close> the next call returns one more than
  this one, and the disk's capacity exceeds the id returned; so the first \<open>2^31\<close> calls on
  a new pool return \<open>0, 1, 2, ...\<close> in order, each greater than all before it.
\<close>

theorem NewPage_allocates:
  "fst (NewPage (BufferPoolManager_ctor n dm pol)) = 0 \<and>
   NewPage s =
     (next_page_id s,
      s\<lparr>next_page_id := next_page_id s + 1,
        disk_manager :=
          IncreaseDiskSpace (size_t_of_page_id (next_page_id s + 1)) (disk_manager s)\<rparr>) \<and>
   page_table (snd (NewPage s)) = page_table s \<and>
   free_frames (snd (NewPage s)) = free_frames s \<and>
   frames (snd (NewPage s)) = frames s \<and>
   replacer (snd (NewPage s)) = replacer s \<and>
   size_t_of_page_id (next_page_id s + 1) \<le> page_capacity (disk_manager (snd (NewPage s))) \<and>
   (sint (next_page_id s) < 2 ^ 31 - 1 \<longrightarrow>
      sint (fst (NewPage (snd (NewPage s)))) = sint (fst (NewPage s)) + 1) \<and>
   (0 \<le> sint (next_page_id s) \<and> sint (next_page_id s) < 2 ^ 31 - 1 \<longrightarrow>
      sint (fst (NewPage s)) < int (page_capacity (disk_manager (snd (NewPage s))))) \<and>
   (k \<le> 2 ^ 31 \<longrightarrow>
      map sint (fst (NewPage_times k (BufferPoolManager_ctor n dm pol))) = map int [0..<k])"
proof -
  have first: "fst (NewPage (BufferPoolManager_ctor n dm pol)) = 0"
    by (simp add: NewPage_eq BufferPoolManager_ctor_def)
  have cap: "size_t_of_page_id (next_page_id s + 1) \<le> page_capacity (disk_manager (snd (NewPage s)))"
    by (simp add: NewPage_eq IncreaseDiskSpace_def)
  have step: "sint (fst (NewPage (snd (NewPage s)))) = sint (fst (NewPage s)) + 1"
    if "sint (next_page_id s) < 2 ^ 31 - 1"
    using that by (simp add: NewPage_eq sint_plus_one)
  show ?thesis
    using first cap step NewPage_reserves [of s] NewPage_times_fresh_pool [of k n dm pol]
    by (simp add: NewPage_eq)
qed

theorem NewPage_allocates_witness:
  "sint (next_page_id pool1) < 2 ^ 31 - 1 \<and> 0 \<le> sint (next_page_id pool1) \<and>
   fst (NewPage pool1) = 0 \<and>
   sint (fst (NewPage (snd (NewPage pool1)))) = sint (fst (NewPage pool1)) + 1 \<and>
   sint (fst (NewPage pool1)) < int (page_capacity (disk_manager (snd (NewPage pool1)))) \<and>
   (3 :: nat) \<le> 2 ^ 31 \<and>
   map sint (fst (NewPage_times 3 pool1)) = map int [0..<3]"
proof -
  have c: "next_page_id pool1 = 0"
    by (simp add: pool1_def BufferPoolManager_ctor_def)
  have small: "sint (next_page_id pool1) < 2 ^ 31 - 1" and pos: "0 \<le> sint (next_page_id pool1)"
    by (simp_all add: c)
  have three: "(3 :: nat) \<le> 2 ^ 31"
    by simp
  show ?thesis
    using NewPage_allocates [of 1 DiskManager_ctor first_candidate pool1 3, folded pool1_def]
      small pos three
    by blast
qed

text \<open>
  The counter wraps: after \<open>2^31 - 1\<close> calls on a new pool the next call returns
  \<open>2^31 - 1\<close> and the call after it returns \<open>- 2^31\<close>, which is smaller.
\<close>

theorem NewPage_wraps_counterexample:
  "sint (fst (NewPage (snd (NewPage_times 2147483647 pool1)))) = 2147483647 \<and>
   sint (fst (NewPage (snd (NewPage (snd (NewPage_times 2147483647 pool1)))))) = - 2147483648 \<and>
   \<not> sint (fst (NewPage (snd (NewPage_times 2147483647 pool1))))
       < sint (fst (NewPage (snd (NewPage (snd (NewPage_times 2147483647 pool1))))))"
proof -
  have "next_page_id (snd (NewPage_times 2147483647 pool1)) = 0x7FFFFFFF"
    by (simp add: NewPage_times_counter pool1_def BufferPoolManager_ctor_def)
  then show ?thesis
    by (simp add: NewPage_eq)
qed

section \<open>Dropping a guard\<close>

lemma released_fields:
  "pin_count (frames (released f s) f) = pin_count (frames s f) - 1"
  "rwlatch (frames (released f s) f) = Unlocked"
  "data (frames (released f s) f) = data (frames s f)"
  "is_dirty (frames (released f s) f) = is_dirty (frames s f)"
  "f' \<noteq> f \<Longrightarrow> frames (released f s) f' = frames s f'"
  "replacer (released f s) =
     (if pin_count (frames s f) - 1 = 0 then SetEvictable f True (replacer s) else replacer s)"
  "page_table (released f s) = page_table s"
  "free_frames (released f s) = free_frames s"
  "disk_manager (released f s) = disk_manager s"
  "io_trace (released f s) = io_trace s"
  by (simp_all add: released_def Let_def)

lemma ReadPageGuard_Drop_live:
  assumes "is_valid g" and "guard_frame g = Some f" and "guard_replacer g"
    and "rwlatch (frames s f) = ExclusiveLocked"
  shows "ReadPageGuard_Drop g s = Inr (g\<lparr>is_valid := False\<rparr>, released f s)"
  using assms by (simp add: ReadPageGuard_Drop_def released_def modify_frame_def Let_def)

lemma WritePageGuard_Drop_live:
  assumes "is_valid g" and "guard_frame g = Some f" and "guard_replacer g"
    and "rwlatch (frames s f) = ExclusiveLocked"
  shows "WritePageGuard_Drop g s = Inr (g\<lparr>is_valid := False\<rparr>, released f s)"
  using assms by (simp add: WritePageGuard_Drop_def released_def modify_frame_def Let_def)

lemma Drop_invalid:
  "\<not> is_valid g \<Longrightarrow> ReadPageGuard_Drop g s = Inr (g, s)"
  "\<not> is_valid g \<Longrightarrow> WritePageGuard_Drop g s = Inr (g, s)"
  by (simp_all add: ReadPageGuard_Drop_def WritePageGuard_Drop_def)

lemma moved_from_invalid:
  "\<not> is_valid (snd (ReadPageGuard_move g))"
  "\<not> is_valid (snd (WritePageGuard_move g))"
  "fst (ReadPageGuard_move g) = g"
  "fst (WritePageGuard_move g) = g"
  by (simp_all add: ReadPageGuard_move_def WritePageGuard_move_def)

lemma unat_pin_count_pred:
  "(n :: 64 word) \<noteq> 0 \<Longrightarrow> unat (n - 1) = unat n - 1"
  by (simp add: unat_minus_one)

text \<open>
  C5. For a live guard (valid, holding frame \<open>f\<close> whose latch it has locked), the first
  \<^verbatim>\<open>Drop()\<close> invalidates the guard and leaves the pool \<open>released f s\<close>: the frame's pin
  count is one less (in \<^verbatim>\<open>size_t\<close> arithmetic; one less as a number when it was not 0),
  the replacer is told the frame is evictable if and only if the pin count became 0, the
  latch is unlocked, and nothing else changes. Every later \<^verbatim>\<open>Drop()\<close> or destructor on
  that guard, and any \<^verbatim>\<open>Drop()\<close> or destructor on an invalid or moved-from guard, returns
  with the guard and the pool as they were. The same holds for both kinds of guard.
\<close>

theorem Drop_idempotent:
  "(is_valid g \<and> guard_frame g = Some f \<and> guard_replacer g \<and>
    rwlatch (frames s f) = ExclusiveLocked \<longrightarrow>
      ReadPageGuard_Drop g s = Inr (g\<lparr>is_valid := False\<rparr>, released f s) \<and>
      WritePageGuard_Drop g s = Inr (g\<lparr>is_valid := False\<rparr>, released f s) \<and>
      ReadPageGuard_Drop (g\<lparr>is_valid := False\<rparr>) (released f s) =
        Inr (g\<lparr>is_valid := False\<rparr>, released f s) \<and>
      WritePageGuard_Drop (g\<lparr>is_valid := False\<rparr>) (released f s) =
        Inr (g\<lparr>is_valid := False\<rparr>, released f s) \<and>
      ReadPageGuard_dtor (g\<lparr>is_valid := False\<rparr>) (released f s) =
        Inr (g\<lparr>is_valid := False\<rparr>, released f s) \<and>
      WritePageGuard_dtor (g\<lparr>is_valid := False\<rparr>) (released f s) =
        Inr (g\<lparr>is_valid := False\<rparr>, released f s)) \<and>
   pin_count (frames (released f s) f) = pin_count (frames s f) - 1 \<and>
   (pin_count (frames s f) \<noteq> 0 \<longrightarrow>
      unat (pin_count (frames (released f s) f)) = unat (pin_count (frames s f)) - 1) \<and>
   replacer (released f s) =
     (if pin_count (frames (released f s) f) = 0 then SetEvictable f True (replacer s)
      else replacer s) \<and>
   rwlatch (frames (released f s) f) = Unlocked \<and>
   data (frames (released f s) f) = data (frames s f) \<and>
   is_dirty (frames (released f s) f) = is_dirty (frames s f) \<and>
   (\<forall>f'. f' \<noteq> f \<longrightarrow> frames (released f s) f' = frames s f') \<and>
   page_table (released f s) = page_table s \<and>
   free_frames (released f s) = free_frames s \<and>
   disk_manager (released f s) = disk_manager s \<and>
   (\<not> is_valid g \<longrightarrow>
      ReadPageGuard_Drop g s = Inr (g, s) \<and> WritePageGuard_Drop g s = Inr (g, s) \<and>
      ReadPageGuard_dtor g s = Inr (g, s) \<and> WritePageGuard_dtor g s = Inr (g, s)) \<and>
   ReadPageGuard_Drop (snd (ReadPageGuard_move g)) s = Inr (snd (ReadPageGuard_move g), s) \<and>
   WritePageGuard_Drop (snd (WritePageGuard_move g)) s = Inr (snd (WritePageGuard_move g), s) \<and>
   ReadPageGuard_dtor (snd (ReadPageGuard_move g)) s = Inr (snd (ReadPageGuard_move g), s) \<and>
   WritePageGuard_dtor (snd (WritePageGuard_move g)) s = Inr (snd (WritePageGuard_move g), s)"
proof -
  have live:
    "ReadPageGuard_Drop g s = Inr (g\<lparr>is_valid := False\<rparr>, released f s) \<and>
     WritePageGuard_Drop g s = Inr (g\<lparr>is_valid := False\<rparr>, released f s)"
    if "is_valid g" "guard_frame g = Some f" "guard_replacer g"
      "rwlatch (frames s f) = ExclusiveLocked"
    using that by (simp add: ReadPageGuard_Drop_live WritePageGuard_Drop_live)
  have again:
    "ReadPageGuard_Drop (g\<lparr>is_valid := False\<rparr>) t = Inr (g\<lparr>is_valid := False\<rparr>, t) \<and>
     WritePageGuard_Drop (g\<lparr>is_valid := False\<rparr>) t = Inr (g\<lparr>is_valid := False\<rparr>, t)" for t
    by (simp add: Drop_invalid)
  have moved:
    "ReadPageGuard_Drop (snd (ReadPageGuard_move g)) s = Inr (snd (ReadPageGuard_move g), s) \<and>
     WritePageGuard_Drop (snd (WritePageGuard_move g)) s = Inr (snd (WritePageGuard_move g), s)"
    by (simp add: Drop_invalid moved_from_invalid)
  have num: "unat (pin_count (frames (released f s) f)) = unat (pin_count (frames s f)) - 1"
    if "pin_count (frames s f) \<noteq> 0"
    using that by (simp add: released_fields unat_pin_count_pred)
  show ?thesis
    using live again [of "released f s"] moved num
    by (simp add: released_fields Drop_invalid ReadPageGuard_dtor_def WritePageGuard_dtor_def)
qed

theorem Drop_idempotent_witness:
  "is_valid read_guard \<and> guard_frame read_guard = Some 0 \<and> guard_replacer read_guard \<and>
   rwlatch (frames read_pool 0) = ExclusiveLocked \<and>
   pin_count (frames read_pool 0) \<noteq> 0 \<and>
   ReadPageGuard_Drop read_guard read_pool =
     Inr (read_guard\<lparr>is_valid := False\<rparr>, released 0 read_pool) \<and>
   ReadPageGuard_Drop (read_guard\<lparr>is_valid := False\<rparr>) (released 0 read_pool) =
     Inr (read_guard\<lparr>is_valid := False\<rparr>, released 0 read_pool) \<and>
   unat (pin_count (frames (released 0 read_pool) 0)) = unat (pin_count (frames read_pool 0)) - 1 \<and>
   pin_count (frames (released 0 read_pool) 0) = 0 \<and>
   replacer (released 0 read_pool) = SetEvictable 0 True (replacer read_pool) \<and>
   is_valid rewrite_guard \<and> guard_frame rewrite_guard = Some 0 \<and> guard_replacer rewrite_guard \<and>
   rwlatch (frames rewrite_pool 0) = ExclusiveLocked \<and>
   WritePageGuard_Drop rewrite_guard rewrite_pool =
     Inr (rewrite_guard\<lparr>is_valid := False\<rparr>, released 0 rewrite_pool) \<and>
   WritePageGuard_Drop (rewrite_guard\<lparr>is_valid := False\<rparr>) (released 0 rewrite_pool) =
     Inr (rewrite_guard\<lparr>is_valid := False\<rparr>, released 0 rewrite_pool) \<and>
   \<not> is_valid (read_guard\<lparr>is_valid := False\<rparr>) \<and>
   ReadPageGuard_Drop (read_guard\<lparr>is_valid := False\<rparr>) full_pool =
     Inr (read_guard\<lparr>is_valid := False\<rparr>, full_pool)"
  using Drop_idempotent [of read_guard 0 read_pool]
    Drop_idempotent [of rewrite_guard 0 rewrite_pool]
    Drop_idempotent [of "read_guard\<lparr>is_valid := False\<rparr>" 0 full_pool]
  by (simp add: read_pool_fields rewrite_pool_fields)

section \<open>Deleting a page\<close>

lemma DeletePage_absent: "map_of (page_table s) p = None \<Longrightarrow> DeletePage p s = (True, s)"
  by (simp add: DeletePage_def)

lemma DeletePage_pinned:
  "map_of (page_table s) p = Some f \<Longrightarrow> 0 < pin_count (frames s f) \<Longrightarrow>
   DeletePage p s = (False, s)"
  by (simp add: DeletePage_def)

text \<open>
  When \<^verbatim>\<open>DeletePage\<close> calls \<^verbatim>\<open>FlushPage(page_id)\<close> it has already erased \<^verbatim>\<open>page_id\<close>
  from the page table, so the call finds no entry and returns false.
\<close>

lemma FlushPage_after_erase:
  "FlushPage p (s\<lparr>page_table := AList.delete p (page_table s), free_frames := fl\<rparr>) =
     (False, s\<lparr>page_table := AList.delete p (page_table s), free_frames := fl\<rparr>)"
  by (simp add: FlushPage_def delete_conv)

lemma DeletePage_unpinned:
  assumes "map_of (page_table s) p = Some f" and "pin_count (frames s f) = 0"
  shows "DeletePage p s =
     (True, s\<lparr>page_table := AList.delete p (page_table s),
              free_frames := free_frames s @ [f],
              disk_manager := DeallocatePage p (disk_manager s),
              frames := (frames s)(f := Reset (frames s f))\<rparr>)"
  using assms by (simp add: DeletePage_def FlushPage_after_erase Let_def)

lemma DeletePage_never_writes:
  "pages (disk_manager (snd (DeletePage p s))) = pages (disk_manager s) \<and>
   io_trace (snd (DeletePage p s)) = io_trace s"
proof (cases "map_of (page_table s) p")
  case None
  then show ?thesis by (simp add: DeletePage_absent)
next
  case (Some f)
  show ?thesis
  proof (cases "0 < pin_count (frames s f)")
    case True
    with Some show ?thesis by (simp add: DeletePage_pinned)
  next
    case False
    then have "pin_count (frames s f) = 0"
      by (simp add: word_gt_0)
    with Some show ?thesis
      by (simp add: DeletePage_unpinned DeallocatePage_def)
  qed
qed

section \<open>Resetting a frame\<close>

lemma Reset_fields:
  "data (Reset fr) = replicate (length (data fr)) 0"
  "pin_count (Reset fr) = 0"
  "\<not> is_dirty (Reset fr)"
  "rwlatch (Reset fr) = rwlatch fr"
  by (simp_all add: Reset_def)

lemma FlushPage_keeps_data:
  "data (frames (snd (FlushPage q s)) f) = data (frames s f)"
  by (simp add: FlushPage_def schedule_and_wait_write Let_def split: option.splits)

lemma reclaim_victim_frame:
  "frames (reclaim_victim p f q s) f = Reset (frames (snd (FlushPage q s)) f)"
  by (simp add: reclaim_victim_def modify_frame_def Let_def)

lemma Checked_evicts:
  assumes "map_of (page_table s) p = None" and "free_frames s = []"
    and "Evict (replacer s) = (Some f, r)" and "FindPage f (s\<lparr>replacer := r\<rparr>) = Some q"
  shows "CheckedWritePage p s =
           make_optional (WritePageGuard_ctor p (Some f)
             (schedule_and_wait False f p (reclaim_victim p f q (s\<lparr>replacer := r\<rparr>))))"
    and "CheckedReadPage p s =
           make_optional (ReadPageGuard_ctor p (Some f)
             (schedule_and_wait False f p (reclaim_victim p f q (s\<lparr>replacer := r\<rparr>))))"
  using assms by (simp_all add: CheckedWritePage_def CheckedReadPage_def)

text \<open>
  C10. \<^verbatim>\<open>FrameHeader::Reset\<close> overwrites every byte of the buffer with 0 (the buffer keeps
  its length, \<^verbatim>\<open>BUSTUB_PAGE_SIZE\<close> for a frame made by the constructor), sets the pin count
  to 0 and clears the dirty flag. So after a \<^verbatim>\<open>DeletePage\<close> of a resident, unpinned page
  its frame is the reset frame, all zeros; and when \<^verbatim>\<open>CheckedWritePage\<close> or
  \<^verbatim>\<open>CheckedReadPage\<close> evicts a victim, the pool in which the disk read is scheduled has the
  victim's frame all zeros, unpinned and clean.
\<close>

theorem Reset_zero_fills:
  "data (Reset fr) = replicate (length (data fr)) 0 \<and>
   pin_count (Reset fr) = 0 \<and> \<not> is_dirty (Reset fr) \<and>
   data (FrameHeader_ctor i) = replicate BUSTUB_PAGE_SIZE 0 \<and>
   (length (data fr) = BUSTUB_PAGE_SIZE \<longrightarrow> data (Reset fr) = replicate BUSTUB_PAGE_SIZE 0) \<and>
   (\<forall>f. map_of (page_table s) p = Some f \<and> pin_count (frames s f) = 0 \<longrightarrow>
        fst (DeletePage p s) \<and>
        frames (snd (DeletePage p s)) f = Reset (frames s f) \<and>
        data (frames (snd (DeletePage p s)) f) = replicate (length (data (frames s f))) 0) \<and>
   (\<forall>f r q. map_of (page_table s) p = None \<and> free_frames s = [] \<and>
        Evict (replacer s) = (Some f, r) \<and> FindPage f (s\<lparr>replacer := r\<rparr>) = Some q \<longrightarrow>
        CheckedWritePage p s =
          make_optional (WritePageGuard_ctor p (Some f)
            (schedule_and_wait False f p (reclaim_victim p f q (s\<lparr>replacer := r\<rparr>)))) \<and>
        CheckedReadPage p s =
          make_optional (ReadPageGuard_ctor p (Some f)
            (schedule_and_wait False f p (reclaim_victim p f q (s\<lparr>replacer := r\<rparr>)))) \<and>
        data (frames (reclaim_victim p f q (s\<lparr>replacer := r\<rparr>)) f) =
          replicate (length (data (frames s f))) 0 \<and>
        pin_count (frames (reclaim_victim p f q (s\<lparr>replacer := r\<rparr>)) f) = 0 \<and>
        \<not> is_dirty (frames (reclaim_victim p f q (s\<lparr>replacer := r\<rparr>)) f))"
proof -
  have ctor: "data (FrameHeader_ctor i) = replicate BUSTUB_PAGE_SIZE 0"
    by (simp add: FrameHeader_ctor_def Reset_def)
  have del: "fst (DeletePage p s) \<and> frames (snd (DeletePage p s)) f = Reset (frames s f) \<and>
      data (frames (snd (DeletePage p s)) f) = replicate (length (data (frames s f))) 0"
    if "map_of (page_table s) p = Some f" "pin_count (frames s f) = 0" for f
    using that by (simp add: DeletePage_unpinned Reset_fields)
  have victim:
    "data (frames (reclaim_victim p f q t) f) = replicate (length (data (frames t f))) 0 \<and>
     pin_count (frames (reclaim_victim p f q t) f) = 0 \<and>
     \<not> is_dirty (frames (reclaim_victim p f q t) f)" for f q t
    by (simp add: reclaim_victim_frame Reset_fields FlushPage_keeps_data)
  show ?thesis
    using ctor del victim [where t = "s\<lparr>replacer := _\<rparr>"] Checked_evicts [of s p]
    by (simp add: Reset_fields)
qed

theorem Reset_zero_fills_witness:
  "length (data (frames full_pool 0)) = BUSTUB_PAGE_SIZE \<and>
   data (frames full_pool 0) = replicate BUSTUB_PAGE_SIZE 7 \<and>
   data (Reset (frames full_pool 0)) = replicate BUSTUB_PAGE_SIZE 0 \<and>
   map_of (page_table full_pool) 0 = Some 0 \<and> pin_count (frames full_pool 0) = 0 \<and>
   fst (DeletePage 0 full_pool) \<and>
   data (frames (snd (DeletePage 0 full_pool)) 0) = replicate BUSTUB_PAGE_SIZE 0 \<and>
   map_of (page_table full_pool) 1 = None \<and> free_frames full_pool = [] \<and>
   Evict (replacer full_pool) = (Some 0, (replacer full_pool)\<lparr>evictable := []\<rparr>) \<and>
   FindPage 0 (full_pool\<lparr>replacer := (replacer full_pool)\<lparr>evictable := []\<rparr>\<rparr>) = Some 0 \<and>
   data (frames (reclaim_victim 1 0 0
           (full_pool\<lparr>replacer := (replacer full_pool)\<lparr>evictable := []\<rparr>\<rparr>)) 0) =
     replicate BUSTUB_PAGE_SIZE 0"
proof -
  have ev: "Evict (replacer full_pool) = (Some 0, (replacer full_pool)\<lparr>evictable := []\<rparr>)"
    by (simp add: Evict_def full_pool_fields first_candidate_def)
  have fp: "FindPage 0 (full_pool\<lparr>replacer := (replacer full_pool)\<lparr>evictable := []\<rparr>\<rparr>) = Some 0"
    by (simp add: FindPage_def full_pool_fields)
  show ?thesis
    using Reset_zero_fills [of "frames full_pool 0" 0 full_pool 0]
      Reset_zero_fills [of "frames full_pool 0" 0 full_pool 1] ev fp
    by (simp add: full_pool_fields)
qed

text \<open>
  C1, on the run \<open>dirty_run\<close>: page 0 is resident in frame 0, unpinned and dirty.
  \<^verbatim>\<open>DeletePage(0)\<close> returns true, erases the entry, puts frame 0 on the free list, asks
  for the deallocation and resets the frame, but the frame is never written: the trace
  gains no event and page 0 is still absent from the disk.
\<close>

theorem DeletePage_skips_flush:
  "map_of (page_table dirty_pool) 0 = Some 0 \<and>
   pin_count (frames dirty_pool 0) = 0 \<and>
   is_dirty (frames dirty_pool 0) \<and>
   DeletePage 0 dirty_pool =
     (True, dirty_pool\<lparr>page_table := [], free_frames := [0],
                      disk_manager := DeallocatePage 0 (disk_manager dirty_pool),
                      frames := (frames dirty_pool)(0 := Reset (frames dirty_pool 0))\<rparr>) \<and>
   io_trace (snd (DeletePage 0 dirty_pool)) = [DiskRead 0 0, SetValue 0 True] \<and>
   pages (disk_manager (snd (DeletePage 0 dirty_pool))) 0 = None"
proof -
  have "DeletePage 0 dirty_pool =
     (True, dirty_pool\<lparr>page_table := AList.delete 0 (page_table dirty_pool),
                      free_frames := free_frames dirty_pool @ [0],
                      disk_manager := DeallocatePage 0 (disk_manager dirty_pool),
                      frames := (frames dirty_pool)(0 := Reset (frames dirty_pool 0))\<rparr>)"
    by (rule DeletePage_unpinned) (simp_all add: dirty_pool_fields)
  then show ?thesis
    by (simp add: dirty_pool_fields DeallocatePage_def AList.delete_eq)
qed

section \<open>Constructing a guard\<close>

lemma ReadPageGuard_ctor_unlocked:
  assumes "rwlatch (frames s f) = Unlocked"
  shows "ReadPageGuard_ctor p (Some f) s =
     Inr (\<lparr>guard_page_id = p, guard_frame = Some f, guard_replacer = True,
           guard_bpm_latch = True, is_valid = True\<rparr>,
          s\<lparr>frames := (frames s)(f := (frames s f)\<lparr>rwlatch := ExclusiveLocked,
                                                     pin_count := pin_count (frames s f) + 1\<rparr>),
            replacer := SetEvictable f False (replacer s)\<rparr>)"
  using assms by (simp add: ReadPageGuard_ctor_def modify_frame_def Let_def)

lemma WritePageGuard_ctor_unlocked:
  assumes "rwlatch (frames s f) = Unlocked"
  shows "WritePageGuard_ctor p (Some f) s =
     Inr (\<lparr>guard_page_id = p, guard_frame = Some f, guard_replacer = True,
           guard_bpm_latch = True, is_valid = True\<rparr>,
          s\<lparr>frames := (frames s)(f := (frames s f)\<lparr>rwlatch := ExclusiveLocked,
                                                     pin_count := pin_count (frames s f) + 1\<rparr>)\<rparr>)"
  using assms by (simp add: WritePageGuard_ctor_def modify_frame_def Let_def)

text \<open>The write guard's constructor never calls the replacer.\<close>

lemma WritePageGuard_ctor_keeps_replacer:
  "WritePageGuard_ctor p fr s = Inr (g, s') \<Longrightarrow> replacer s' = replacer s"
  by (auto simp: WritePageGuard_ctor_def modify_frame_def Let_def split: option.splits if_splits)

lemma ReadPageGuard_ctor_tells_replacer:
  "ReadPageGuard_ctor p fr s = Inr (g, s') \<Longrightarrow>
   \<exists>f. fr = Some f \<and> replacer s' = SetEvictable f False (replacer s)"
  by (auto simp: ReadPageGuard_ctor_def modify_frame_def Let_def split: option.splits if_splits)

text \<open>
  C2, on the pool \<open>full_pool\<close>, where page 0 sits in frame 0 and an earlier guard's
  \<^verbatim>\<open>Drop()\<close> has told the replacer that frame 0 is evictable. \<^verbatim>\<open>WritePage(0)\<close> returns a
  valid guard with the latch locked and the pin count at 1, and the replacer still has
  frame 0 as evictable, so that \<^verbatim>\<open>Evict()\<close> would return it. \<^verbatim>\<open>ReadPage(0)\<close> on the same
  pool does remove frame 0 from the evictable frames; the latch it takes is locked
  exclusively, as by the write guard.
\<close>

theorem WritePageGuard_leaves_frame_evictable:
  "evictable (replacer full_pool) = [0] \<and>
   (case WritePage 0 full_pool of
      Inr (g, s) \<Rightarrow>
        is_valid g \<and> guard_frame g = Some 0 \<and> pin_count (frames s 0) = 1 \<and>
        rwlatch (frames s 0) = ExclusiveLocked \<and> evictable (replacer s) = [0] \<and>
        fst (Evict (replacer s)) = Some 0
    | Inl e \<Rightarrow> False) \<and>
   (case ReadPage 0 full_pool of
      Inr (g, s) \<Rightarrow>
        is_valid g \<and> guard_frame g = Some 0 \<and> pin_count (frames s 0) = 1 \<and>
        rwlatch (frames s 0) = ExclusiveLocked \<and> evictable (replacer s) = [] \<and>
        fst (Evict (replacer s)) = None
    | Inl e \<Rightarrow> False)"
  by (simp add: WritePage_def ReadPage_def CheckedWritePage_def CheckedReadPage_def
      full_pool_fields make_optional_def WritePageGuard_ctor_unlocked ReadPageGuard_ctor_unlocked
      RecordAccess_def SetEvictable_def Evict_def)

section \<open>When no frame can be had\<close>

lemma make_optional_not_none: "make_optional r \<noteq> Inr (None, s')"
  by (simp add: make_optional_def split: sum.splits prod.splits)

lemma Evict_none: "Evict r = (None, r') \<longleftrightarrow> evictable r = [] \<and> r' = r"
  by (auto simp: Evict_def Let_def split: list.splits)

lemma Evict_empty: "evictable r = [] \<Longrightarrow> Evict r = (None, r)"
  by (simp add: Evict_def)

text \<open>
  The checked calls return \<^verbatim>\<open>std::nullopt\<close> exactly when the page is not in the page
  table, the free list is empty and the replacer has no evictable frame; the pool is then
  as before.
\<close>

lemma Checked_none_iff:
  "CheckedWritePage p s = Inr (None, s') \<longleftrightarrow>
     map_of (page_table s) p = None \<and> free_frames s = [] \<and> evictable (replacer s) = [] \<and> s' = s"
  "CheckedReadPage p s = Inr (None, s') \<longleftrightarrow>
     map_of (page_table s) p = None \<and> free_frames s = [] \<and> evictable (replacer s) = [] \<and> s' = s"
  by (auto simp: CheckedWritePage_def CheckedReadPage_def make_optional_not_none Evict_none
      Evict_empty split: option.splits list.splits prod.splits)

text \<open>
  C3, on the run \<open>rewrite_run\<close>: a pool of one frame whose frame holds page 0 under a live
  write guard, with pin count 1. Page 1 is not resident and the free list is empty, but
  the replacer still has frame 0 as evictable and hands it out. Both checked calls for
  page 1 take the eviction branch: the pinned frame is reset and given to page 1, and the
  guard's constructor then waits for the latch that the live guard holds. Neither call
  returns \<^verbatim>\<open>std::nullopt\<close>.
\<close>

theorem Checked_evicts_pinned_frame:
  "rewrite_run = Inr (rewrite_guard, rewrite_pool) \<and>
   num_frames rewrite_pool = 1 \<and>
   is_valid rewrite_guard \<and> guard_frame rewrite_guard = Some 0 \<and>
   pin_count (frames rewrite_pool 0) = 1 \<and>
   map_of (page_table rewrite_pool) 1 = None \<and>
   free_frames rewrite_pool = [] \<and>
   Evict (replacer rewrite_pool) = (Some 0, (replacer rewrite_pool)\<lparr>evictable := []\<rparr>) \<and>
   page_table (reclaim_victim 1 0 0
       (rewrite_pool\<lparr>replacer := (replacer rewrite_pool)\<lparr>evictable := []\<rparr>\<rparr>)) = [(1, 0)] \<and>
   pin_count (frames (reclaim_victim 1 0 0
       (rewrite_pool\<lparr>replacer := (replacer rewrite_pool)\<lparr>evictable := []\<rparr>\<rparr>)) 0) = 0 \<and>
   CheckedReadPage 1 rewrite_pool = Inl LatchHeld \<and>
   CheckedWritePage 1 rewrite_pool = Inl LatchHeld"
  by (simp add: rewrite_pool_def rewrite_guard_def rewrite_run_def run_defs)

section \<open>Flushing all pages\<close>

lemma FlushPage_page_table: "page_table (snd (FlushPage p s)) = page_table s"
  by (simp add: FlushPage_def schedule_and_wait_write Let_def split: option.splits)

lemma FlushPage_only_cleans:
  "is_dirty (frames (snd (FlushPage p s)) f) \<Longrightarrow> is_dirty (frames s f)"
  by (simp add: FlushPage_def schedule_and_wait_write Let_def split: option.splits if_splits)

lemma FlushPage_cleans:
  "map_of (page_table s) p = Some f \<Longrightarrow> \<not> is_dirty (frames (snd (FlushPage p s)) f)"
  by (simp add: FlushPage_def schedule_and_wait_write Let_def)

lemma FlushPage_other_frame:
  "map_of (page_table s) p = Some f0 \<Longrightarrow> f \<noteq> f0 \<Longrightarrow>
   frames (snd (FlushPage p s)) f = frames s f"
  by (simp add: FlushPage_def schedule_and_wait_write Let_def)

lemma FlushPage_other_page:
  "q \<noteq> p \<Longrightarrow> pages (disk_manager (snd (FlushPage p s))) q = pages (disk_manager s) q"
  by (simp add: FlushPage_def schedule_and_wait_write DiskManager_WritePage_def Let_def
      split: option.splits)

lemma flushed_page_table: "page_table (flushed l s) = page_table s"
  by (induction l arbitrary: s) (simp_all add: FlushPage_page_table)

lemma flushed_keeps_data: "data (frames (flushed l s) f) = data (frames s f)"
  by (induction l arbitrary: s) (simp_all add: FlushPage_keeps_data)

lemma flushed_only_cleans:
  "is_dirty (frames (flushed l s) f) \<Longrightarrow> is_dirty (frames s f)"
proof (induction l arbitrary: s)
  case Nil
  then show ?case by simp
next
  case (Cons e l)
  then have "is_dirty (frames (snd (FlushPage (fst e) s)) f)"
    by simp
  then show ?case
    by (rule FlushPage_only_cleans)
qed

lemma flushed_other_page:
  "q \<notin> fst ` set l \<Longrightarrow>
   pages (disk_manager (flushed l s)) q = pages (disk_manager s) q"
  by (induction l arbitrary: s) (simp_all add: FlushPage_other_page)

lemma flushed_as_fold:
  "flushed l s = foldl (\<lambda>t p. snd (FlushPage p t)) s (map fst l)"
  by (induction l arbitrary: s) simp_all

lemma flushed_cleans:
  assumes "e \<in> set l" and "map_of (page_table s) (fst e) = Some f"
  shows "\<not> is_dirty (frames (flushed l s) f)"
  using assms
proof (induction l arbitrary: s)
  case Nil
  then show ?case by simp
next
  case (Cons a l)
  let ?s1 = "snd (FlushPage (fst a) s)"
  show ?case
  proof (cases "e = a")
    case True
    with Cons.prems have "\<not> is_dirty (frames ?s1 f)"
      by (simp add: FlushPage_cleans)
    then show ?thesis
      using flushed_only_cleans [of l ?s1 f] by auto
  next
    case False
    with Cons.prems have "e \<in> set l" and "map_of (page_table ?s1) (fst e) = Some f"
      by (simp_all add: FlushPage_page_table)
    then show ?thesis
      using Cons.IH [of ?s1] by simp
  qed
qed

lemma flushed_clean_noop:
  assumes "\<And>e f. e \<in> set l \<Longrightarrow> map_of (page_table s) (fst e) = Some f \<Longrightarrow>
             \<not> is_dirty (frames s f)"
  shows "flushed l s = s"
  using assms
proof (induction l)
  case Nil
  show ?case by simp
next
  case (Cons a l)
  have "FlushPage (fst a) s = (False, s)"
  proof (cases "map_of (page_table s) (fst a)")
    case None
    then show ?thesis by (rule FlushPage_absent)
  next
    case (Some f)
    then show ?thesis
      using Cons.prems [of a f] by (simp add: FlushPage_clean)
  qed
  moreover have "flushed l s = s"
    by (rule Cons.IH) (use Cons.prems in auto)
  ultimately show ?case
    by simp
qed

lemma flushed_writes:
  assumes "distinct (map fst l)" and "distinct (map snd l)"
    and "\<And>e. e \<in> set l \<Longrightarrow> map_of (page_table s) (fst e) = Some (snd e)"
    and "(p, f) \<in> set l" and "is_dirty (frames s f)"
  shows "pages (disk_manager (flushed l s)) p = Some (data (frames s f))"
  using assms
proof (induction l arbitrary: s)
  case Nil
  then show ?case by simp
next
  case (Cons a l)
  let ?s1 = "snd (FlushPage (fst a) s)"
  have look: "map_of (page_table s) (fst a) = Some (snd a)"
    using Cons.prems(3) [of a] by simp
  show ?case
  proof (cases "(p, f) = a")
    case True
    then have a: "fst a = p" "snd a = f"
      by auto
    have "pages (disk_manager ?s1) p = Some (data (frames s f))"
      using look Cons.prems(5) a by (simp add: FlushPage_dirty DiskManager_WritePage_def)
    moreover have "p \<notin> fst ` set l"
      using Cons.prems(1) a by auto
    ultimately show ?thesis
      by (simp add: a flushed_other_page)
  next
    case False
    with Cons.prems(4) have mem: "(p, f) \<in> set l"
      by auto
    then have "f \<in> snd ` set l"
      by force
    moreover have "snd a \<notin> snd ` set l"
      using Cons.prems(2) by simp
    ultimately have "f \<noteq> snd a"
      by blast
    then have same: "frames ?s1 f = frames s f"
      using look by (simp add: FlushPage_other_frame)
    have "pages (disk_manager (flushed l ?s1)) p = Some (data (frames ?s1 f))"
    proof (rule Cons.IH)
      show "distinct (map fst l)" and "distinct (map snd l)"
        using Cons.prems(1,2) by simp_all
      show "map_of (page_table ?s1) (fst e) = Some (snd e)" if "e \<in> set l" for e
        using that Cons.prems(3) [of e] by (simp add: FlushPage_page_table)
      show "(p, f) \<in> set l"
        by (rule mem)
      show "is_dirty (frames ?s1 f)"
        using same Cons.prems(5) by simp
    qed
    then show ?thesis
      by (simp add: same)
  qed
qed

lemma flush_each_passes:
  assumes "\<And>e. e \<in> set l \<Longrightarrow> bustub_assert (fst e)"
  shows "flush_each bustub_assert l s = Inr (flushed l s)"
  using assms by (induction l arbitrary: s) (simp_all add: case_prod_unfold)

lemma flush_each_assertion_fails:
  assumes "fst (FlushPage (fst page) s) = False" and "\<not> bustub_assert (fst page)"
  shows "flush_each bustub_assert (page # rest) s = Inl AssertionFailed"
  using assms by (simp add: case_prod_unfold)

lemma set_visit_order: "set (visit_order visit_rank pt) = set pt"
  by (simp add: visit_order_def)

lemma distinct_visit_order:
  "distinct (map g (visit_order visit_rank pt)) \<longleftrightarrow> distinct (map g pt)"
  by (simp add: visit_order_def distinct_map)

text \<open>
  What \<^verbatim>\<open>FlushAllPages\<close> does when \<^verbatim>\<open>BUSTUB_ASSERT\<close> passes for the page ids in the
  table, in whatever order the entries are visited: it returns, having called
  \<^verbatim>\<open>FlushPage\<close> on every page id of the page table. It changes neither the table nor
  any buffer; afterwards the frame of every resident page is clean; when no two entries
  share a page id or a frame, the disk holds the buffer of every page whose frame was
  dirty; and a second call right after the first returns the pool as it got it.
\<close>

lemma FlushAllPages_when_assertions_pass:
  fixes s :: BufferPoolManager and visit_rank :: "page_id_t \<Rightarrow> nat"
  assumes passes: "\<forall>e \<in> set (page_table s). bustub_assert (fst e)"
  defines "s' \<equiv> flushed (visit_order visit_rank (page_table s)) s"
  shows "FlushAllPages bustub_assert visit_rank s = Inr s'"
    and "s' = foldl (\<lambda>t p. snd (FlushPage p t)) s
                (map fst (visit_order visit_rank (page_table s)))"
    and "page_table s' = page_table s"
    and "data (frames s' f) = data (frames s f)"
    and "map_of (page_table s) p = Some f \<Longrightarrow> \<not> is_dirty (frames s' f)"
    and "distinct (map fst (page_table s)) \<Longrightarrow> distinct (map snd (page_table s)) \<Longrightarrow>
         (p, f) \<in> set (page_table s) \<Longrightarrow> is_dirty (frames s f) \<Longrightarrow>
         pages (disk_manager s') p = Some (data (frames s f))"
    and "FlushAllPages bustub_assert next_rank s' = Inr s'"
proof -
  let ?l = "visit_order visit_rank (page_table s)"
  show first: "FlushAllPages bustub_assert visit_rank s = Inr s'"
    unfolding FlushAllPages_def s'_def
    by (rule flush_each_passes) (use passes in \<open>simp add: set_visit_order\<close>)
  show "s' = foldl (\<lambda>t p. snd (FlushPage p t)) s (map fst ?l)"
    by (simp add: s'_def flushed_as_fold)
  show table: "page_table s' = page_table s"
    by (simp add: s'_def flushed_page_table)
  show "data (frames s' f) = data (frames s f)"
    by (simp add: s'_def flushed_keeps_data)
  have clean: "\<not> is_dirty (frames s' g)"
    if "e \<in> set (page_table s)" "map_of (page_table s) (fst e) = Some g" for e g
    using that by (simp add: s'_def flushed_cleans set_visit_order)
  show "\<not> is_dirty (frames s' f)" if "map_of (page_table s) p = Some f"
    using that clean [of "(p, f)" f] by (simp add: map_of_SomeD)
  show "pages (disk_manager s') p = Some (data (frames s f))"
    if d1: "distinct (map fst (page_table s))" and d2: "distinct (map snd (page_table s))"
      and mem: "(p, f) \<in> set (page_table s)" and dirty: "is_dirty (frames s f)"
    unfolding s'_def
  proof (rule flushed_writes)
    show "distinct (map fst ?l)" and "distinct (map snd ?l)"
      using d1 d2 by (simp_all add: distinct_visit_order)
    show "map_of (page_table s) (fst e) = Some (snd e)" if e: "e \<in> set ?l" for e
    proof -
      have "(fst e, snd e) \<in> set (page_table s)"
        using e by (simp add: set_visit_order)
      with d1 show ?thesis
        by (simp only: map_of_eq_Some_iff)
    qed
    show "(p, f) \<in> set ?l"
      using mem by (simp add: set_visit_order)
    show "is_dirty (frames s f)"
      by (rule dirty)
  qed
  have "flushed (visit_order next_rank (page_table s')) s' = s'"
  proof (rule flushed_clean_noop)
    fix e g
    assume "e \<in> set (visit_order next_rank (page_table s'))"
      and "map_of (page_table s') (fst e) = Some g"
    then show "\<not> is_dirty (frames s' g)"
      using clean [of e g] by (simp add: table set_visit_order)
  qed
  moreover have "flush_each bustub_assert (visit_order next_rank (page_table s')) s' =
      Inr (flushed (visit_order next_rank (page_table s')) s')"
    by (rule flush_each_passes) (use passes in \<open>simp add: set_visit_order table\<close>)
  ultimately show "FlushAllPages bustub_assert next_rank s' = Inr s'"
    by (simp add: FlushAllPages_def)
qed

text \<open>
  C6, on the run \<open>dirty_run\<close>, in a build with assertions on: page 0 is resident in
  frame 0 and dirty. The first \<^verbatim>\<open>FlushAllPages()\<close> returns; it has written page 0 and the
  frame is clean. The second \<^verbatim>\<open>FlushAllPages()\<close> right after it does not return: its
  \<^verbatim>\<open>FlushPage(0)\<close> returns false for the clean page and the loop's
  \<^verbatim>\<open>BUSTUB_ASSERT\<close>, given the page id 0 as its message, fails. On \<open>full_pool\<close>, where
  page 0 is resident and clean, already the first call stops like that. The order in
  which the table is visited plays no part. With assertions compiled out both calls
  return and the second changes nothing.
\<close>

theorem FlushAllPages_asserts_on_page_0:
  "page_table dirty_pool = [(0, 0)] \<and> is_dirty (frames dirty_pool 0) \<and>
   FlushAllPages upstream_assert visit_rank dirty_pool = Inr (flushed [(0, 0)] dirty_pool) \<and>
   \<not> is_dirty (frames (flushed [(0, 0)] dirty_pool) 0) \<and>
   pages (disk_manager (flushed [(0, 0)] dirty_pool)) 0 = Some (data (frames dirty_pool 0)) \<and>
   FlushAllPages upstream_assert next_rank (flushed [(0, 0)] dirty_pool) = Inl AssertionFailed \<and>
   page_table full_pool = [(0, 0)] \<and> \<not> is_dirty (frames full_pool 0) \<and>
   FlushAllPages upstream_assert visit_rank full_pool = Inl AssertionFailed \<and>
   FlushAllPages assertions_off visit_rank dirty_pool = Inr (flushed [(0, 0)] dirty_pool) \<and>
   FlushAllPages assertions_off next_rank (flushed [(0, 0)] dirty_pool) =
     Inr (flushed [(0, 0)] dirty_pool)"
proof -
  define t where "t = snd (FlushPage 0 dirty_pool)"
  have visit: "visit_order r [(0, 0)] = [(0, 0)]" for r
    by (simp add: visit_order_def)
  have flush: "FlushPage 0 dirty_pool =
      (True, dirty_pool\<lparr>frames := (frames dirty_pool)(0 := (frames dirty_pool 0)\<lparr>is_dirty := False\<rparr>),
         disk_manager := DiskManager_WritePage 0 (data (frames dirty_pool 0)) (disk_manager dirty_pool),
         io_trace := io_trace dirty_pool @ [DiskWrite 0 0, SetValue (promises_made dirty_pool) True],
         promises_made := Suc (promises_made dirty_pool)\<rparr>)"
    by (rule FlushPage_dirty) (simp_all add: dirty_pool_fields)
  have ok: "fst (FlushPage 0 dirty_pool)"
    by (simp add: flush)
  have one: "flushed [(0, 0)] dirty_pool = t"
    by (simp add: t_def)
  have table: "page_table t = [(0, 0)]"
    by (simp add: t_def FlushPage_page_table dirty_pool_fields)
  have clean: "\<not> is_dirty (frames t 0)"
    by (simp add: t_def flush)
  have disk: "pages (disk_manager t) 0 = Some (data (frames dirty_pool 0))"
    by (simp add: t_def flush DiskManager_WritePage_def)
  have again: "FlushPage 0 t = (False, t)"
    by (rule FlushPage_clean [of _ _ 0]) (simp_all add: table clean)
  have full: "FlushPage 0 full_pool = (False, full_pool)"
    by (rule FlushPage_clean [of _ _ 0]) (simp_all add: full_pool_fields)
  have first_on: "FlushAllPages upstream_assert visit_rank dirty_pool = Inr t"
    using ok by (simp add: FlushAllPages_def dirty_pool_fields visit t_def case_prod_unfold)
  have second_on: "FlushAllPages upstream_assert next_rank t = Inl AssertionFailed"
    by (simp add: FlushAllPages_def table visit again upstream_assert_def)
  have full_on: "FlushAllPages upstream_assert visit_rank full_pool = Inl AssertionFailed"
    by (simp add: FlushAllPages_def full_pool_fields visit full upstream_assert_def)
  have first_off: "FlushAllPages assertions_off visit_rank dirty_pool = Inr t"
    by (simp add: FlushAllPages_def dirty_pool_fields visit t_def case_prod_unfold
        assertions_off_def)
  have second_off: "FlushAllPages assertions_off next_rank t = Inr t"
    by (simp add: FlushAllPages_def table visit again assertions_off_def)
  show ?thesis
    unfolding one
    using clean disk first_on second_on full_on first_off second_off
    by (simp add: dirty_pool_fields full_pool_fields)
qed

end
